theory Spec2Isabelle
  imports Complex_Main
begin

section \<open>Values of the program\<close>

text \<open>
  The storefront's session layer is JavaScript running in a browser. Strings are
  modelled as \<open>string\<close>, one \<open>char\<close> per code unit in the range 0..255; an optional
  argument or field (\<open>undefined\<close> or \<open>null\<close> in the source) is \<open>None\<close>.
  \<open>truthy\<close> is the test the source writes as \<open>if (x)\<close> / \<open>!x\<close> on such a value:
  \<open>undefined\<close>, \<open>null\<close> and the empty string are falsy.
\<close>

definition truthy :: "string option \<Rightarrow> bool" where
  "truthy s = (case s of None \<Rightarrow> False | Some v \<Rightarrow> v \<noteq> [])"

text \<open>\<open>a || b\<close> on an optional string with a string default.\<close>

definition or_else :: "string option \<Rightarrow> string \<Rightarrow> string" where
  "or_else s d = (case s of None \<Rightarrow> d | Some v \<Rightarrow> if v = [] then d else v)"

text \<open>The user object the gateway returns and \<open>user_data\<close> caches.\<close>

record user =
  u_id :: string
  u_email :: string
  u_firstName :: string
  u_lastName :: string
  u_phone :: "string option"
  u_dateOfBirth :: "string option"
  u_gender :: "string option"
  u_avatar :: "string option"
  u_verified :: bool
  u_createdAt :: "string option"

text \<open>
  The object \<open>validateAddressData\<close> returns (the request body of an address write),
  and an address as the gateway returns it: the same fields and the server's \<open>id\<close>.
\<close>

record address_data =
  fullName :: string
  addressLine1 :: string
  addressLine2 :: string
  city :: string
  state :: string
  zipCode :: string
  country :: string
  phone :: string
  addressType :: string
  isDefault :: bool

record address = address_data +
  addr_id :: string

text \<open>The marker \<open>registerUser\<close> leaves in \<open>sessionStorage\<close>.\<close>

record pending =
  p_email :: string
  p_userId :: string

text \<open>What a JavaScript \<open>throw\<close> carries: \<open>new Error(message)\<close>, or an error of the runtime.\<close>

datatype exn = Error string | TypeError | SyntaxError | URIError | InvalidCharacterError

text \<open>The custom events the services dispatch on \<open>window\<close>.\<close>

datatype event =
    UserLoggedIn user
  | UserLoggedOut
  | ProfileUpdated user
  | AddressAdded address
  | AddressUpdated address
  | AddressDeleted string

text \<open>
  Every effect a service call has on its environment, in the order it happens: reads and
  writes of \<open>localStorage\<close>/\<open>sessionStorage\<close> by key, a request handed to the gateway
  (HTTP method and endpoint), a dispatched event, a navigation, a \<open>console.error\<close>.
  What the handlers of a dispatched event do to storage is recorded in the same way,
  after the event.
\<close>

datatype effect =
    StorageGet string
  | StorageSet string
  | StorageRemove string
  | Request string string
  | Dispatch event
  | Navigate string
  | ConsoleError string

text \<open>
  The browser state the services share. The first four fields are the \<open>localStorage\<close>
  keys \<open>auth_token\<close>, \<open>refresh_token\<close>, \<open>user_data\<close> and \<open>user_addresses\<close> (the last
  two hold JSON in the source and the parsed value here); \<open>pending_registration\<close> is the
  \<open>sessionStorage\<close> key; \<open>location_href\<close> is \<open>window.location.href\<close>. Writes to storage
  are taken to succeed (no quota error).

  Two fields say what the page has loaded. \<open>auth_state_manager\<close>: the script of the
  \<open>AuthStateManager\<close> has run, so that its constructor has registered the handlers of
  \<open>setupEventListeners\<close> on \<open>window\<close>. \<open>user_service\<close>: the global \<open>userService\<close> is
  defined (\<open>typeof userService !== 'undefined'\<close>).
\<close>

record world =
  auth_token :: "string option"
  refresh_token :: "string option"
  user_data :: "user option"
  user_addresses :: "address list option"
  pending_registration :: "pending option"
  location_href :: string
  auth_state_manager :: bool
  user_service :: bool
  trace :: "effect list"

text \<open>The arguments of the UserService writes, as the pages pass them (any field may be missing).\<close>

record profile_data =
  pd_firstName :: "string option"
  pd_lastName :: "string option"
  pd_email :: "string option"
  pd_phone :: "string option"
  pd_dateOfBirth :: "string option"
  pd_gender :: "string option"

record address_input =
  in_fullName :: "string option"
  in_addressLine1 :: "string option"
  in_addressLine2 :: "string option"
  in_city :: "string option"
  in_state :: "string option"
  in_zipCode :: "string option"
  in_country :: "string option"
  in_phone :: "string option"
  in_addressType :: "string option"
  in_isDefault :: "bool option"

record image_file =
  file_type :: string
  file_size :: nat

text \<open>The argument of \<open>registerUser\<close>.\<close>

record registration =
  reg_email :: "string option"
  reg_password :: "string option"
  reg_firstName :: "string option"
  reg_lastName :: "string option"
  reg_phone :: "string option"

section \<open>Strings and regular expressions\<close>

definition char_code :: "char \<Rightarrow> nat" where
  "char_code c = of_char c"

text \<open>
  The character classes of the source's regular expressions, on the code units 0..255:
  \<open>\s\<close> (tab, line feed, vertical tab, form feed, carriage return, space, no-break
  space), \<open>\d\<close>, \<open>[a-z]\<close>, \<open>[A-Z]\<close>, and \<open>.\<close> (anything but a line terminator).
\<close>

definition is_space :: "char \<Rightarrow> bool" where
  "is_space c = (char_code c \<in> {9, 10, 11, 12, 13, 32, 160})"

definition is_digit :: "char \<Rightarrow> bool" where
  "is_digit c = (48 \<le> char_code c \<and> char_code c \<le> 57)"

definition is_lower :: "char \<Rightarrow> bool" where
  "is_lower c = (97 \<le> char_code c \<and> char_code c \<le> 122)"

definition is_upper :: "char \<Rightarrow> bool" where
  "is_upper c = (65 \<le> char_code c \<and> char_code c \<le> 90)"

definition is_dot_char :: "char \<Rightarrow> bool" where
  "is_dot_char c = (char_code c \<noteq> 10 \<and> char_code c \<noteq> 13)"

text \<open>\<open>String.prototype.trim\<close>, \<open>toLowerCase\<close> and \<open>startsWith\<close>.\<close>

definition trim :: "string \<Rightarrow> string" where
  "trim s = rev (dropWhile is_space (rev (dropWhile is_space s)))"

definition lower_char :: "char \<Rightarrow> char" where
  "lower_char c =
     (if is_upper c \<or> (192 \<le> char_code c \<and> char_code c \<le> 222 \<and> char_code c \<noteq> 215)
      then char_of (char_code c + 32) else c)"

definition toLowerCase :: "string \<Rightarrow> string" where
  "toLowerCase s = map lower_char s"

definition startsWith :: "string \<Rightarrow> string \<Rightarrow> bool" where
  "startsWith s p = (take (length p) s = p)"

text \<open>
  Regular expressions, matched by derivatives. \<open>Sym p\<close> is a character class, \<open>Rep\<close> is
  \<open>*\<close>, \<open>Both\<close> is intersection (it carries the lookaheads of the password pattern).
  Every pattern of the source is anchored (\<open>^...$\<close>) and has no flags, so
  \<open>regex.test(s)\<close> is a match of the whole string: \<open>rx_test\<close>.
\<close>

datatype rx = Void | Eps | Sym "char \<Rightarrow> bool" | Alt rx rx | Cat rx rx | Rep rx | Both rx rx

fun nullable :: "rx \<Rightarrow> bool" where
  "nullable Void = False"
| "nullable Eps = True"
| "nullable (Sym p) = False"
| "nullable (Alt r s) = (nullable r \<or> nullable s)"
| "nullable (Cat r s) = (nullable r \<and> nullable s)"
| "nullable (Rep r) = True"
| "nullable (Both r s) = (nullable r \<and> nullable s)"

fun deriv :: "char \<Rightarrow> rx \<Rightarrow> rx" where
  "deriv c Void = Void"
| "deriv c Eps = Void"
| "deriv c (Sym p) = (if p c then Eps else Void)"
| "deriv c (Alt r s) = Alt (deriv c r) (deriv c s)"
| "deriv c (Cat r s) =
     (if nullable r then Alt (Cat (deriv c r) s) (deriv c s) else Cat (deriv c r) s)"
| "deriv c (Rep r) = Cat (deriv c r) (Rep r)"
| "deriv c (Both r s) = Both (deriv c r) (deriv c s)"

fun rx_test :: "rx \<Rightarrow> string \<Rightarrow> bool" where
  "rx_test r [] = nullable r"
| "rx_test r (c # cs) = rx_test (deriv c r) cs"

text \<open>
  The notation of the patterns: \<open>x\<close>, \<open>r?\<close>, \<open>r+\<close>, \<open>r{n}\<close>, \<open>r{m,n}\<close>, \<open>r{m,}\<close>, a
  sequence, and \<open>(?=r)s\<close> at the start of an anchored pattern: some prefix of the input
  matches \<open>r\<close>, and the input matches \<open>s\<close>.
\<close>

definition rx_chr :: "char \<Rightarrow> rx" where
  "rx_chr x = Sym (\<lambda>c. c = x)"

definition rx_opt :: "rx \<Rightarrow> rx" where
  "rx_opt r = Alt Eps r"

definition rx_plus :: "rx \<Rightarrow> rx" where
  "rx_plus r = Cat r (Rep r)"

fun rx_times :: "nat \<Rightarrow> rx \<Rightarrow> rx" where
  "rx_times 0 r = Eps"
| "rx_times (Suc n) r = Cat r (rx_times n r)"

fun rx_upto :: "nat \<Rightarrow> rx \<Rightarrow> rx" where
  "rx_upto 0 r = Eps"
| "rx_upto (Suc n) r = Alt Eps (Cat r (rx_upto n r))"

definition rx_range :: "nat \<Rightarrow> nat \<Rightarrow> rx \<Rightarrow> rx" where
  "rx_range m n r = Cat (rx_times m r) (rx_upto (n - m) r)"

definition rx_atleast :: "nat \<Rightarrow> rx \<Rightarrow> rx" where
  "rx_atleast m r = Cat (rx_times m r) (Rep r)"

definition rx_seq :: "rx list \<Rightarrow> rx" where
  "rx_seq rs = foldr Cat rs Eps"

definition rx_ahead :: "rx \<Rightarrow> rx \<Rightarrow> rx" where
  "rx_ahead r s = Both (Cat r (Rep (Sym (\<lambda>_. True)))) s"

text \<open>
  The four patterns of the services:
  \<^verbatim>\<open>/^[^\s@]+@[^\s@]+\.[^\s@]+$/\<close>,
  \<^verbatim>\<open>/^(?=.*[a-z])(?=.*[A-Z])(?=.*\d).{8,}$/\<close>,
  \<^verbatim>\<open>/^[\+]?[(]?[0-9]{1,4}[)]?[-\s\.]?[(]?[0-9]{1,4}[)]?[-\s\.]?[0-9]{1,9}$/\<close> and
  \<^verbatim>\<open>/^\d{5,6}(-\d{4})?$/\<close>.
\<close>

definition not_space_at :: "char \<Rightarrow> bool" where
  "not_space_at c = (\<not> is_space c \<and> c \<noteq> CHR ''@'')"

definition emailRegex :: rx where
  "emailRegex = rx_seq [rx_plus (Sym not_space_at), rx_chr CHR ''@'', rx_plus (Sym not_space_at),
     rx_chr CHR ''.'', rx_plus (Sym not_space_at)]"

definition passwordRegex :: rx where
  "passwordRegex =
     rx_ahead (Cat (Rep (Sym is_dot_char)) (Sym is_lower))
    (rx_ahead (Cat (Rep (Sym is_dot_char)) (Sym is_upper))
    (rx_ahead (Cat (Rep (Sym is_dot_char)) (Sym is_digit))
    (rx_atleast 8 (Sym is_dot_char))))"

definition is_separator :: "char \<Rightarrow> bool" where
  "is_separator c = (c = CHR ''-'' \<or> is_space c \<or> c = CHR ''.'')"

definition phoneRegex :: rx where
  "phoneRegex = rx_seq [rx_opt (rx_chr CHR ''+''),
     rx_opt (rx_chr CHR ''(''), rx_range 1 4 (Sym is_digit), rx_opt (rx_chr CHR '')''),
     rx_opt (Sym is_separator),
     rx_opt (rx_chr CHR ''(''), rx_range 1 4 (Sym is_digit), rx_opt (rx_chr CHR '')''),
     rx_opt (Sym is_separator),
     rx_range 1 9 (Sym is_digit)]"

definition zipRegex :: rx where
  "zipRegex = rx_seq [rx_range 5 6 (Sym is_digit),
     rx_opt (Cat (rx_chr CHR ''-'') (rx_times 4 (Sym is_digit)))]"

text \<open>\<open>validateEmail\<close> (the same in both services), \<open>validatePassword\<close>, \<open>validatePhone\<close>.\<close>

definition validateEmail :: "string \<Rightarrow> bool" where
  "validateEmail email = rx_test emailRegex email"

definition validatePassword :: "string \<Rightarrow> bool" where
  "validatePassword password = rx_test passwordRegex password"

definition validatePhone :: "string \<Rightarrow> bool" where
  "validatePhone ph = rx_test phoneRegex ph"

section \<open>Computations that may throw\<close>

text \<open>
  A service method is a function of the world that returns the new world and either the
  thrown value (\<open>Inl\<close>) or the returned one (\<open>Inr\<close>). An \<open>async\<close> method is run to the
  point where its promise settles: \<open>Inl\<close> is a rejected promise. No other code runs
  between the steps of one call, apart from the handlers of the events it dispatches.
\<close>

type_synonym 'a io = "world \<Rightarrow> (exn + 'a) \<times> world"

definition io_return :: "'a \<Rightarrow> 'a io" where
  "io_return x = (\<lambda>w. (Inr x, w))"

definition io_throw :: "exn \<Rightarrow> 'a io" where
  "io_throw e = (\<lambda>w. (Inl e, w))"

definition io_bind :: "'a io \<Rightarrow> ('a \<Rightarrow> 'b io) \<Rightarrow> 'b io" where
  "io_bind m f = (\<lambda>w. case m w of (Inl e, w') \<Rightarrow> (Inl e, w') | (Inr x, w') \<Rightarrow> f x w')"

definition io_then :: "'a io \<Rightarrow> 'b io \<Rightarrow> 'b io" where
  "io_then m n = io_bind m (\<lambda>_. n)"

text \<open>\<open>try { m } catch (error) { h error }\<close>\<close>

definition io_try :: "'a io \<Rightarrow> (exn \<Rightarrow> 'a io) \<Rightarrow> 'a io" where
  "io_try m h = (\<lambda>w. case m w of (Inl e, w') \<Rightarrow> h e w' | (Inr x, w') \<Rightarrow> (Inr x, w'))"

definition emit :: "effect \<Rightarrow> unit io" where
  "emit e = (\<lambda>w. (Inr (), w\<lparr>trace := trace w @ [e]\<rparr>))"

text \<open>
  The \<open>catch\<close> block every service method ends with:
  \<open>console.error(label, error); throw error;\<close>
\<close>

definition log_and_rethrow :: "string \<Rightarrow> exn \<Rightarrow> 'a io" where
  "log_and_rethrow label e = io_then (emit (ConsoleError label)) (io_throw e)"

text \<open>A pure check that throws, run inside a method.\<close>

definition io_lift :: "exn + 'a \<Rightarrow> 'a io" where
  "io_lift r = (case r of Inl e \<Rightarrow> io_throw e | Inr x \<Rightarrow> io_return x)"

section \<open>The runtime functions of \<open>parseJwt\<close>\<close>

text \<open>
  \<open>parseJwt\<close> calls \<open>split\<close>, \<open>replace\<close>, \<open>atob\<close>, \<open>decodeURIComponent\<close> and
  \<open>JSON.parse\<close>. They are functions of the browser, modelled here after their
  standards. The decoded payload can hold any Unicode text, so from
  \<open>decodeURIComponent\<close> on a string is a list of UTF-16 code units (\<open>nat list\<close>).
\<close>

text \<open>\<open>s.split(sep)\<close>: always at least one segment.\<close>

fun split_on :: "char \<Rightarrow> string \<Rightarrow> string list" where
  "split_on sep [] = [[]]"
| "split_on sep (c # cs) =
     (if c = sep then [] # split_on sep cs
      else (case split_on sep cs of [] \<Rightarrow> [[c]] | seg # segs \<Rightarrow> (c # seg) # segs))"

text \<open>\<open>xs[i]\<close>: \<open>undefined\<close> (\<open>None\<close>) out of range.\<close>

definition index :: "'a list \<Rightarrow> nat \<Rightarrow> 'a option" where
  "index xs i = (if i < length xs then Some (xs ! i) else None)"

text \<open>\<open>s.replace(/x/g, y)\<close> for single characters.\<close>

definition replace_all :: "char \<Rightarrow> char \<Rightarrow> string \<Rightarrow> string" where
  "replace_all x y s = map (\<lambda>c. if c = x then y else c) s"

subsection \<open>atob\<close>

text \<open>
  The forgiving-base64 decode of the HTML standard: ASCII whitespace is removed; if
  the length is a multiple of 4, one or two trailing \<open>=\<close> are removed; a length of 1
  modulo 4 or a character outside the alphabet is an \<open>InvalidCharacterError\<close>; the
  sextets are packed into bytes and the leftover bits are dropped.
\<close>

definition is_ascii_ws :: "char \<Rightarrow> bool" where
  "is_ascii_ws c = (char_code c \<in> {9, 10, 12, 13, 32})"

definition b64_value :: "char \<Rightarrow> nat option" where
  "b64_value c =
     (if is_upper c then Some (char_code c - 65)
      else if is_lower c then Some (char_code c - 71)
      else if is_digit c then Some (char_code c + 4)
      else if c = CHR ''+'' then Some 62
      else if c = CHR ''/'' then Some 63
      else None)"

definition strip_padding :: "string \<Rightarrow> string" where
  "strip_padding d =
     (if d \<noteq> [] \<and> last d = CHR ''='' then
        (if butlast d \<noteq> [] \<and> last (butlast d) = CHR ''='' then butlast (butlast d) else butlast d)
      else d)"

fun b64_bytes :: "nat list \<Rightarrow> nat list" where
  "b64_bytes (a # b # c # d # rest) =
     (let n = ((a * 64 + b) * 64 + c) * 64 + d
      in n div 65536 # (n div 256) mod 256 # n mod 256 # b64_bytes rest)"
| "b64_bytes [a, b, c] = (let n = (a * 64 + b) * 64 + c in [n div 1024, (n div 4) mod 256])"
| "b64_bytes [a, b] = [(a * 64 + b) div 16]"
| "b64_bytes [a] = []"
| "b64_bytes [] = []"

definition atob :: "string \<Rightarrow> exn + string" where
  "atob s =
     (let d = filter (\<lambda>c. \<not> is_ascii_ws c) s;
          d' = (if length d mod 4 = 0 then strip_padding d else d)
      in if length d' mod 4 = 1 \<or> \<not> list_all (\<lambda>c. b64_value c \<noteq> None) d'
         then Inl InvalidCharacterError
         else Inr (map char_of (b64_bytes (map (\<lambda>c. the (b64_value c)) d'))))"

subsection \<open>decodeURIComponent\<close>

text \<open>
  \<open>'%' + ('00' + c.charCodeAt(0).toString(16)).slice(-2)\<close> for every character of the
  decoded bytes.
\<close>

definition hex_digit :: "nat \<Rightarrow> char" where
  "hex_digit n = ''0123456789abcdef'' ! n"

definition percent_encode :: "string \<Rightarrow> string" where
  "percent_encode s =
     concat (map (\<lambda>c. [CHR ''%'', hex_digit (char_code c div 16), hex_digit (char_code c mod 16)]) s)"

text \<open>
  \<open>decodeURIComponent\<close>: an escape is \<open>%\<close> and two hex digits; the escaped octets are
  read as UTF-8 (no overlong form, no surrogate, at most U+10FFFF), and every octet of
  a multi-byte sequence must itself be escaped. Anything else is a \<open>URIError\<close>. The
  result is in UTF-16 code units.
\<close>

definition hex_value :: "char \<Rightarrow> nat option" where
  "hex_value c =
     (if is_digit c then Some (char_code c - 48)
      else if 97 \<le> char_code c \<and> char_code c \<le> 102 then Some (char_code c - 87)
      else if 65 \<le> char_code c \<and> char_code c \<le> 70 then Some (char_code c - 55)
      else None)"

datatype uri_item = Plain nat | Octet nat

fun uri_items :: "string \<Rightarrow> uri_item list option" where
  "uri_items [] = Some []"
| "uri_items (c # cs) =
     (if c \<noteq> CHR ''%'' then map_option ((#) (Plain (char_code c))) (uri_items cs)
      else (case cs of
              h1 # h2 # rest \<Rightarrow>
                (case (hex_value h1, hex_value h2) of
                   (Some a, Some b) \<Rightarrow> map_option ((#) (Octet (16 * a + b))) (uri_items rest)
                 | _ \<Rightarrow> None)
            | _ \<Rightarrow> None))"

definition utf16 :: "nat \<Rightarrow> nat list" where
  "utf16 cp =
     (if cp < 65536 then [cp]
      else [55296 + (cp - 65536) div 1024, 56320 + (cp - 65536) mod 1024])"

text \<open>
  \<open>utf8_units k acc lo items\<close>: \<open>k\<close> continuation octets are still due for the code
  point accumulated in \<open>acc\<close>, whose shortest encoding has this length when it is at
  least \<open>lo\<close>.
\<close>

fun utf8_units :: "nat \<Rightarrow> nat \<Rightarrow> nat \<Rightarrow> uri_item list \<Rightarrow> nat list option" where
  "utf8_units 0 acc lo [] = Some []"
| "utf8_units (Suc k) acc lo [] = None"
| "utf8_units 0 acc lo (Plain u # xs) = map_option ((#) u) (utf8_units 0 0 0 xs)"
| "utf8_units (Suc k) acc lo (Plain u # xs) = None"
| "utf8_units 0 acc lo (Octet b # xs) =
     (if b < 128 then map_option ((#) b) (utf8_units 0 0 0 xs)
      else if b < 192 then None
      else if b < 224 then utf8_units 1 (b - 192) 128 xs
      else if b < 240 then utf8_units 2 (b - 224) 2048 xs
      else if b < 248 then utf8_units 3 (b - 240) 65536 xs
      else None)"
| "utf8_units (Suc k) acc lo (Octet b # xs) =
     (if b < 128 \<or> 192 \<le> b then None
      else let cp = acc * 64 + (b - 128) in
        if k > 0 then utf8_units k cp lo xs
        else if cp < lo \<or> cp > 1114111 \<or> (55296 \<le> cp \<and> cp \<le> 57343) then None
        else map_option ((@) (utf16 cp)) (utf8_units 0 0 0 xs))"

definition decodeURIComponent :: "string \<Rightarrow> exn + nat list" where
  "decodeURIComponent s =
     (case uri_items s of
        None \<Rightarrow> Inl URIError
      | Some items \<Rightarrow>
          (case utf8_units 0 0 0 items of None \<Rightarrow> Inl URIError | Some units \<Rightarrow> Inr units))"

subsection \<open>Numbers\<close>

text \<open>
  A JavaScript number is a binary64 double: \<open>NaN\<close>, an infinity, or a finite double,
  which is kept as the rational it is. The sign of a zero is dropped: no comparison
  tells \<open>-0\<close> from \<open>0\<close>.
\<close>

datatype jsnum = NaN | Finite rat | PosInfinity | NegInfinity

text \<open>The number of binary digits of \<open>n\<close>.\<close>

fun bits_from :: "nat \<Rightarrow> nat \<Rightarrow> nat" where
  "bits_from acc n = (if n = 0 then acc else bits_from (acc + 1) (n div 2))"

declare bits_from.simps [simp del]

definition bit_length :: "nat \<Rightarrow> nat" where
  "bit_length n = bits_from 0 n"

definition pow2 :: "int \<Rightarrow> rat" where
  "pow2 k = (if k \<ge> 0 then 2 ^ nat k else 1 / 2 ^ nat (- k))"

text \<open>The \<open>e\<close> with \<open>2 ^ e \<le> a < 2 ^ (e + 1)\<close>, for \<open>a > 0\<close>.\<close>

definition binary_exponent :: "rat \<Rightarrow> int" where
  "binary_exponent a =
     (if a \<ge> 1 then int (bit_length (nat \<lfloor>a\<rfloor>)) - 1
      else - int (bit_length (nat (\<lceil>1 / a\<rceil> - 1))))"

text \<open>The nearest integer, the even one of the two when \<open>x\<close> is halfway.\<close>

definition round_half_even :: "rat \<Rightarrow> int" where
  "round_half_even x =
     (let f = \<lfloor>x\<rfloor>; d = x - of_int f
      in if d < 1 / 2 then f else if d > 1 / 2 then f + 1 else if even f then f else f + 1)"

text \<open>
  The double nearest to \<open>x\<close> (round to nearest, ties to even), which is what a numeric
  literal and the result of an arithmetic operation become. The doubles around \<open>x\<close> are
  the multiples of \<open>2 ^ (e - 52)\<close>, where \<open>e\<close> is the binary exponent of \<open>x\<close>, and at least
  \<open>-1022\<close> (below \<open>2 ^ -1022\<close> the doubles are the multiples of \<open>2 ^ -1074\<close>); a result of
  \<open>2 ^ 1024\<close> or more is an infinity. A literal of more than 20 significant digits is
  rounded in the same way, as the engines do (ECMA-262 would also allow them to round
  it after cutting it at the 20th digit).
\<close>

definition round64 :: "rat \<Rightarrow> jsnum" where
  "round64 x =
     (if x = 0 then Finite 0
      else
        let a = \<bar>x\<bar>;
            e = max (binary_exponent a) (- 1022);
            ulp = pow2 (e - 52);
            m = of_int (round_half_even (a / ulp)) * ulp
        in if m \<ge> pow2 1024 then (if x < 0 then NegInfinity else PosInfinity)
           else Finite (if x < 0 then - m else m))"

text \<open>\<open>a / b\<close> for a finite \<open>b > 0\<close>, and \<open>a > b\<close>.\<close>

definition divide_by :: "jsnum \<Rightarrow> rat \<Rightarrow> jsnum" where
  "divide_by a b = (case a of Finite x \<Rightarrow> round64 (x / b) | _ \<Rightarrow> a)"

definition greater_than :: "jsnum \<Rightarrow> jsnum \<Rightarrow> bool" where
  "greater_than a b =
     (case (a, b) of
        (NaN, _) \<Rightarrow> False
      | (_, NaN) \<Rightarrow> False
      | (Finite x, Finite y) \<Rightarrow> x > y
      | (Finite x, PosInfinity) \<Rightarrow> False
      | (Finite x, NegInfinity) \<Rightarrow> True
      | (PosInfinity, PosInfinity) \<Rightarrow> False
      | (PosInfinity, _) \<Rightarrow> True
      | (NegInfinity, _) \<Rightarrow> False)"

subsection \<open>JSON.parse\<close>

text \<open>
  A JSON value. An object lists its members in the order of the text.
\<close>

datatype json =
    JNull
  | JBool bool
  | JNum jsnum
  | JStr "nat list"
  | JArr "json list"
  | JObj "(nat list \<times> json) list"

text \<open>The code units of a string literal of this file.\<close>

definition units :: "string \<Rightarrow> nat list" where
  "units s = map char_code s"

definition is_digit_unit :: "nat \<Rightarrow> bool" where
  "is_digit_unit u = (48 \<le> u \<and> u \<le> 57)"

definition digits_value :: "nat list \<Rightarrow> nat" where
  "digits_value ds = foldl (\<lambda>a d. 10 * a + (d - 48)) 0 ds"

text \<open>
  A JSON number, \<^verbatim>\<open>-?(0|[1-9][0-9]*)(\.[0-9]+)?([eE][+-]?[0-9]+)?\<close>: the text is cut
  into sign, integer part, fraction and exponent, and each part is checked. Its value
  is the double nearest to the decimal number it writes.
\<close>

definition scale :: "rat \<Rightarrow> bool \<Rightarrow> nat \<Rightarrow> rat" where
  "scale x negative e = (if negative then x / 10 ^ e else x * 10 ^ e)"

definition exponent_part :: "nat list \<Rightarrow> (bool \<times> nat) option" where
  "exponent_part r =
     (if r = [] then Some (False, 0)
      else if hd r = 101 \<or> hd r = 69 then
        (let r1 = tl r;
             negative = (r1 \<noteq> [] \<and> hd r1 = 45);
             ds = (if r1 \<noteq> [] \<and> (hd r1 = 45 \<or> hd r1 = 43) then tl r1 else r1)
         in if ds \<noteq> [] \<and> list_all is_digit_unit ds then Some (negative, digits_value ds) else None)
      else None)"

definition json_number :: "nat list \<Rightarrow> jsnum option" where
  "json_number cs =
     (let negative = (cs \<noteq> [] \<and> hd cs = 45);
          r1 = (if negative then tl cs else cs);
          ip = takeWhile is_digit_unit r1;
          r2 = dropWhile is_digit_unit r1;
          has_fraction = (r2 \<noteq> [] \<and> hd r2 = 46);
          fp = (if has_fraction then takeWhile is_digit_unit (tl r2) else []);
          r3 = (if has_fraction then dropWhile is_digit_unit (tl r2) else r2)
      in if ip = [] \<or> (length ip > 1 \<and> hd ip = 48) \<or> (has_fraction \<and> fp = []) then None
         else (case exponent_part r3 of
                 None \<Rightarrow> None
               | Some (eneg, e) \<Rightarrow>
                   Some (round64 ((if negative then - 1 else 1)
                         * scale (of_nat (digits_value (ip @ fp)) / 10 ^ length fp) eneg e))))"

definition json_word :: "nat list \<Rightarrow> json option" where
  "json_word cs =
     (if cs = units ''true'' then Some (JBool True)
      else if cs = units ''false'' then Some (JBool False)
      else if cs = units ''null'' then Some JNull
      else None)"

text \<open>
  The tokens. The lexer reads one code unit at a time; inside a string, a number or
  a word it carries what it has read so far (in reverse).
\<close>

datatype jtoken = LBrace | RBrace | LBracket | RBracket | Colon | Comma | Scalar json

datatype lex_mode =
    Between
  | InString "nat list"
  | Escape "nat list"
  | Unicode "nat list" "nat list"
  | InNumber "nat list"
  | InWord "nat list"

definition is_json_ws :: "nat \<Rightarrow> bool" where
  "is_json_ws u = (u = 32 \<or> u = 9 \<or> u = 10 \<or> u = 13)"

definition punctuation :: "nat \<Rightarrow> jtoken option" where
  "punctuation u =
     (if u = 123 then Some LBrace else if u = 125 then Some RBrace
      else if u = 91 then Some LBracket else if u = 93 then Some RBracket
      else if u = 58 then Some Colon else if u = 44 then Some Comma else None)"

text \<open>What may follow a number or a word directly: whitespace or punctuation.\<close>

definition delimiter :: "nat \<Rightarrow> jtoken list option" where
  "delimiter u =
     (if is_json_ws u then Some []
      else (case punctuation u of Some t \<Rightarrow> Some [t] | None \<Rightarrow> None))"

definition is_number_unit :: "nat \<Rightarrow> bool" where
  "is_number_unit u = (is_digit_unit u \<or> u = 45 \<or> u = 43 \<or> u = 46 \<or> u = 101 \<or> u = 69)"

definition escaped :: "nat \<Rightarrow> nat option" where
  "escaped u =
     (if u = 34 \<or> u = 92 \<or> u = 47 then Some u
      else if u = 98 then Some 8 else if u = 102 then Some 12 else if u = 110 then Some 10
      else if u = 114 then Some 13 else if u = 116 then Some 9 else None)"

definition hex_unit :: "nat \<Rightarrow> nat option" where
  "hex_unit u =
     (if is_digit_unit u then Some (u - 48)
      else if 97 \<le> u \<and> u \<le> 102 then Some (u - 87)
      else if 65 \<le> u \<and> u \<le> 70 then Some (u - 55)
      else None)"

definition finish :: "json option \<Rightarrow> jtoken list option \<Rightarrow> jtoken list option \<Rightarrow> jtoken list option" where
  "finish v d rest =
     (case (v, d, rest) of
        (Some x, Some ds, Some ts) \<Rightarrow> Some (Scalar x # ds @ ts)
      | _ \<Rightarrow> None)"

fun scan :: "lex_mode \<Rightarrow> nat list \<Rightarrow> jtoken list option" where
  "scan Between [] = Some []"
| "scan Between (u # us) =
     (if is_json_ws u then scan Between us
      else if u = 34 then scan (InString []) us
      else if u = 45 \<or> is_digit_unit u then scan (InNumber [u]) us
      else if 97 \<le> u \<and> u \<le> 122 then scan (InWord [u]) us
      else (case punctuation u of Some t \<Rightarrow> map_option ((#) t) (scan Between us) | None \<Rightarrow> None))"
| "scan (InString acc) [] = None"
| "scan (InString acc) (u # us) =
     (if u = 34 then map_option ((#) (Scalar (JStr (rev acc)))) (scan Between us)
      else if u = 92 then scan (Escape acc) us
      else if u < 32 then None
      else scan (InString (u # acc)) us)"
| "scan (Escape acc) [] = None"
| "scan (Escape acc) (u # us) =
     (if u = 117 then scan (Unicode acc []) us
      else (case escaped u of Some x \<Rightarrow> scan (InString (x # acc)) us | None \<Rightarrow> None))"
| "scan (Unicode acc hs) [] = None"
| "scan (Unicode acc hs) (u # us) =
     (case hex_unit u of
        None \<Rightarrow> None
      | Some h \<Rightarrow>
          if length hs = 3 then scan (InString (foldl (\<lambda>a d. 16 * a + d) 0 (hs @ [h]) # acc)) us
          else scan (Unicode acc (hs @ [h])) us)"
| "scan (InNumber acc) [] = finish (map_option JNum (json_number (rev acc))) (Some []) (Some [])"
| "scan (InNumber acc) (u # us) =
     (if is_number_unit u then scan (InNumber (u # acc)) us
      else finish (map_option JNum (json_number (rev acc))) (delimiter u) (scan Between us))"
| "scan (InWord acc) [] = finish (json_word (rev acc)) (Some []) (Some [])"
| "scan (InWord acc) (u # us) =
     (if 97 \<le> u \<and> u \<le> 122 then scan (InWord (u # acc)) us
      else finish (json_word (rev acc)) (delimiter u) (scan Between us))"

text \<open>
  The parser: a stack of the containers that are open, each waiting for the value
  being read, and what may come next.
\<close>

datatype frame = FArr "json list" | FObj "(nat list \<times> json) list" "nat list"

datatype pstate =
    ExpectValue "frame list"
  | AfterOpenArr "frame list"
  | AfterOpenObj "frame list"
  | ExpectKey "(nat list \<times> json) list" "frame list"
  | ExpectColon "(nat list \<times> json) list" "nat list" "frame list"
  | AfterElem "json list" "frame list"
  | AfterMember "(nat list \<times> json) list" "frame list"
  | Finished json

fun deliver :: "json \<Rightarrow> frame list \<Rightarrow> pstate" where
  "deliver v [] = Finished v"
| "deliver v (FArr es # st) = AfterElem (v # es) st"
| "deliver v (FObj ms k # st) = AfterMember ((k, v) # ms) st"

fun start_value :: "frame list \<Rightarrow> jtoken \<Rightarrow> pstate option" where
  "start_value st (Scalar v) = Some (deliver v st)"
| "start_value st LBracket = Some (AfterOpenArr st)"
| "start_value st LBrace = Some (AfterOpenObj st)"
| "start_value st _ = None"

fun step :: "pstate \<Rightarrow> jtoken \<Rightarrow> pstate option" where
  "step (ExpectValue st) t = start_value st t"
| "step (AfterOpenArr st) t = (if t = RBracket then Some (deliver (JArr []) st) else start_value (FArr [] # st) t)"
| "step (AfterOpenObj st) t =
     (case t of RBrace \<Rightarrow> Some (deliver (JObj []) st)
              | Scalar (JStr k) \<Rightarrow> Some (ExpectColon [] k st)
              | _ \<Rightarrow> None)"
| "step (ExpectKey ms st) t = (case t of Scalar (JStr k) \<Rightarrow> Some (ExpectColon ms k st) | _ \<Rightarrow> None)"
| "step (ExpectColon ms k st) t = (if t = Colon then Some (ExpectValue (FObj ms k # st)) else None)"
| "step (AfterElem es st) t =
     (case t of Comma \<Rightarrow> Some (ExpectValue (FArr es # st))
              | RBracket \<Rightarrow> Some (deliver (JArr (rev es)) st)
              | _ \<Rightarrow> None)"
| "step (AfterMember ms st) t =
     (case t of Comma \<Rightarrow> Some (ExpectKey ms st)
              | RBrace \<Rightarrow> Some (deliver (JObj (rev ms)) st)
              | _ \<Rightarrow> None)"
| "step (Finished v) t = None"

fun run :: "pstate \<Rightarrow> jtoken list \<Rightarrow> pstate option" where
  "run s [] = Some s"
| "run s (t # ts) = (case step s t of None \<Rightarrow> None | Some s' \<Rightarrow> run s' ts)"

definition JSON_parse :: "nat list \<Rightarrow> exn + json" where
  "JSON_parse src =
     (case scan Between src of
        None \<Rightarrow> Inl SyntaxError
      | Some ts \<Rightarrow> (case run (ExpectValue []) ts of Some (Finished v) \<Rightarrow> Inr v | _ \<Rightarrow> Inl SyntaxError))"

subsection \<open>Comparing a JSON value with a number\<close>

text \<open>
  \<open>payload.exp\<close>: reading a property of \<open>null\<close> throws a TypeError; an object gives
  the member of that name (the last one, where the text repeats it); any other value
  has no such property (\<open>undefined\<close>, \<open>None\<close>). This is the lookup of a name that no
  prototype defines, as \<open>exp\<close> is.
\<close>

definition get_property :: "json \<Rightarrow> string \<Rightarrow> exn + json option" where
  "get_property v name =
     (case v of
        JNull \<Rightarrow> Inl TypeError
      | JObj members \<Rightarrow> Inr (map_of (rev members) (units name))
      | _ \<Rightarrow> Inr None)"

text \<open>
  The number a string converts to (StringToNumber): white space is trimmed; the
  empty string is 0; \<open>Infinity\<close> with an optional sign; \<open>0x\<close>, \<open>0o\<close>, \<open>0b\<close> integers; a
  decimal literal \<^verbatim>\<open>[+-]?([0-9]+(\.[0-9]*)?|\.[0-9]+)([eE][+-]?[0-9]+)?\<close>; anything
  else is \<open>NaN\<close>. The value of a literal is the double nearest to what it writes.
\<close>

definition is_js_space :: "nat \<Rightarrow> bool" where
  "is_js_space u =
     (u \<in> {9, 10, 11, 12, 13, 32, 160, 5760, 8232, 8233, 8239, 8287, 12288, 65279}
      \<or> (8192 \<le> u \<and> u \<le> 8202))"

definition trim_units :: "nat list \<Rightarrow> nat list" where
  "trim_units s = rev (dropWhile is_js_space (rev (dropWhile is_js_space s)))"

definition radix_value :: "nat \<Rightarrow> nat list \<Rightarrow> nat option" where
  "radix_value b ds =
     (if ds \<noteq> [] \<and> list_all (\<lambda>d. case hex_unit d of None \<Rightarrow> False | Some h \<Rightarrow> h < b) ds
      then Some (foldl (\<lambda>a d. b * a + the (hex_unit d)) 0 ds) else None)"

definition radix_literal :: "nat list \<Rightarrow> nat option" where
  "radix_literal s =
     (case s of
        z # x # ds \<Rightarrow>
          if z \<noteq> 48 then None
          else if x = 120 \<or> x = 88 then radix_value 16 ds
          else if x = 111 \<or> x = 79 then radix_value 8 ds
          else if x = 98 \<or> x = 66 then radix_value 2 ds
          else None
      | _ \<Rightarrow> None)"

definition decimal_literal :: "nat list \<Rightarrow> jsnum" where
  "decimal_literal s =
     (let negative = (s \<noteq> [] \<and> hd s = 45);
          r1 = (if s \<noteq> [] \<and> (hd s = 45 \<or> hd s = 43) then tl s else s);
          ip = takeWhile is_digit_unit r1;
          r2 = dropWhile is_digit_unit r1;
          has_point = (r2 \<noteq> [] \<and> hd r2 = 46);
          fp = (if has_point then takeWhile is_digit_unit (tl r2) else []);
          r3 = (if has_point then dropWhile is_digit_unit (tl r2) else r2)
      in if r1 = units ''Infinity'' then (if negative then NegInfinity else PosInfinity)
         else if ip = [] \<and> fp = [] then NaN
         else (case exponent_part r3 of
                 None \<Rightarrow> NaN
               | Some (eneg, e) \<Rightarrow>
                   round64 ((if negative then - 1 else 1)
                            * scale (of_nat (digits_value (ip @ fp)) / 10 ^ length fp) eneg e)))"

definition string_to_number :: "nat list \<Rightarrow> jsnum" where
  "string_to_number s =
     (let t = trim_units s
      in if t = [] then Finite 0
         else (case radix_literal t of
                 Some n \<Rightarrow> round64 (of_nat n)
               | None \<Rightarrow> decimal_literal t))"

text \<open>
  The number a JSON value converts to (ToNumber). An array converts through its
  string, the elements joined by commas with \<open>null\<close> as the empty string: the empty
  array is 0, a one-element array is its element's string as a number (a number's
  string converts back to the number), a longer one has a comma and is \<open>NaN\<close>. A plain object's string is \<open>[object Object]\<close>: \<open>NaN\<close>.
  Where an object has a member named \<open>toString\<close>, which is not a function, the
  conversion to a string throws a TypeError.
\<close>

fun string_throws :: "json \<Rightarrow> bool" where
  "string_throws (JObj members) = (units ''toString'' \<in> set (map fst members))"
| "string_throws (JArr xs) = list_ex string_throws xs"
| "string_throws _ = False"

fun number_of :: "json \<Rightarrow> jsnum" where
  "number_of JNull = Finite 0"
| "number_of (JBool b) = Finite (if b then 1 else 0)"
| "number_of (JNum x) = x"
| "number_of (JStr s) = string_to_number s"
| "number_of (JObj members) = NaN"
| "number_of (JArr []) = Finite 0"
| "number_of (JArr [JNull]) = Finite 0"
| "number_of (JArr [JBool b]) = NaN"
| "number_of (JArr [JNum x]) = x"
| "number_of (JArr [JStr s]) = string_to_number s"
| "number_of (JArr [JObj members]) = NaN"
| "number_of (JArr [JArr xs]) = number_of (JArr xs)"
| "number_of (JArr (x # y # zs)) = NaN"

definition to_number :: "json option \<Rightarrow> exn + jsnum" where
  "to_number v =
     (case v of
        None \<Rightarrow> Inr NaN
      | Some x \<Rightarrow> if string_throws x then Inl TypeError else Inr (number_of x))"

section \<open>The gateway\<close>

text \<open>
  A response of the backend: \<open>{success: true, ...}\<close> with the payload the operation
  reads, or \<open>{success: false, message?}\<close>. A gateway call can also throw (the transport
  fails; the mocks of the source never do), so what a gateway does with a request is
  an \<open>exn + 'a reply\<close>. A gateway is one such function for each endpoint the services
  call.
\<close>

datatype 'a reply = Success 'a | Failure "string option"

record session_payload =
  s_token :: string
  s_refreshToken :: "string option"
  s_user :: user

record token_payload =
  t_token :: string
  t_refreshToken :: "string option"

record auth_gateway =
  post_register :: "registration \<Rightarrow> exn + string reply"
  post_verify_otp :: "string \<Rightarrow> string \<Rightarrow> exn + session_payload reply"
  post_login :: "string \<Rightarrow> string \<Rightarrow> exn + session_payload reply"
  post_logout :: "string \<Rightarrow> exn + unit reply"
  post_refresh_token :: "string \<Rightarrow> exn + token_payload reply"

record user_gateway =
  get_profile :: "exn + user reply"
  put_profile :: "profile_data \<Rightarrow> exn + user reply"
  post_avatar :: "image_file \<Rightarrow> exn + string option reply"
  delete_account :: "string \<Rightarrow> exn + unit reply"
  get_addresses :: "exn + address list reply"
  get_address :: "string \<Rightarrow> exn + address reply"
  post_address :: "address_data \<Rightarrow> exn + address reply"
  put_address :: "string \<Rightarrow> address_data \<Rightarrow> exn + address reply"
  delete_address :: "string \<Rightarrow> exn + unit reply"
  put_default :: "string \<Rightarrow> exn + unit reply"

section \<open>Events and their handlers\<close>

text \<open>
  \<open>window.dispatchEvent(event)\<close> runs the handlers registered for the event before it
  returns; what a handler throws is reported by the browser and does not reach the
  dispatcher. The source registers these handlers:

  \<^item> the \<open>AuthStateManager\<close>, in \<open>setupEventListeners\<close>: \<open>handleLogin\<close> for
    \<open>userLoggedIn\<close>, \<open>handleLogout\<close> for \<open>userLoggedOut\<close>, \<open>handleProfileUpdate\<close> for
    \<open>profileUpdated\<close>;
  \<^item> the login page, for \<open>userLoggedIn\<close>, and the profile page, for \<open>profileUpdated\<close>,
    \<open>addressAdded\<close>, \<open>addressUpdated\<close> and \<open>addressDeleted\<close>.

  \<open>handleLogin\<close>, \<open>handleProfileUpdate\<close> and the handlers of the pages write to the
  console and to the document and read the \<open>cart\<close> key of \<open>localStorage\<close>; the world
  holds none of these, so they leave it as it is. \<open>handleLogout\<close> writes to the console,
  updates the document (\<open>updateUIForGuestUser\<close>) and calls \<open>clearUserData\<close>, which removes
  the cached addresses through \<open>userService.clearCachedAddresses()\<close>.
\<close>

definition ADDRESSES_KEY :: string where "ADDRESSES_KEY = ''user_addresses''"

definition clearCachedAddresses :: "unit io" where
  "clearCachedAddresses =
     io_bind (emit (StorageRemove ADDRESSES_KEY)) (\<lambda>_ w. (Inr (), w\<lparr>user_addresses := None\<rparr>))"

definition clearUserData :: "unit io" where
  "clearUserData = (\<lambda>w. if user_service w then clearCachedAddresses w else io_return () w)"

definition handleLogout :: "unit io" where
  "handleLogout = clearUserData"

definition handlers :: "event \<Rightarrow> unit io" where
  "handlers e =
     (\<lambda>w. case e of
        UserLoggedOut \<Rightarrow> if auth_state_manager w then handleLogout w else io_return () w
      | _ \<Rightarrow> io_return () w)"

definition dispatchEvent :: "event \<Rightarrow> unit io" where
  "dispatchEvent e = io_then (emit (Dispatch e)) (handlers e)"

section \<open>AuthService\<close>

subsection \<open>The token store\<close>

definition TOKEN_KEY :: string where "TOKEN_KEY = ''auth_token''"
definition REFRESH_TOKEN_KEY :: string where "REFRESH_TOKEN_KEY = ''refresh_token''"
definition USER_KEY :: string where "USER_KEY = ''user_data''"
definition PENDING_KEY :: string where "PENDING_KEY = ''pending_registration''"

definition getToken :: "string option io" where
  "getToken = io_bind (emit (StorageGet TOKEN_KEY)) (\<lambda>_ w. (Inr (auth_token w), w))"

definition getRefreshToken :: "string option io" where
  "getRefreshToken = io_bind (emit (StorageGet REFRESH_TOKEN_KEY)) (\<lambda>_ w. (Inr (refresh_token w), w))"

definition getCurrentUser :: "user option io" where
  "getCurrentUser = io_bind (emit (StorageGet USER_KEY)) (\<lambda>_ w. (Inr (user_data w), w))"

definition setTokens :: "string \<Rightarrow> string option \<Rightarrow> unit io" where
  "setTokens token refreshToken =
     io_bind (emit (StorageSet TOKEN_KEY)) (\<lambda>_.
     io_bind (\<lambda>w. (Inr (), w\<lparr>auth_token := Some token\<rparr>)) (\<lambda>_.
     if truthy refreshToken then
       io_bind (emit (StorageSet REFRESH_TOKEN_KEY)) (\<lambda>_ w.
         (Inr (), w\<lparr>refresh_token := refreshToken\<rparr>))
     else io_return ()))"

definition setUserData :: "user \<Rightarrow> unit io" where
  "setUserData u =
     io_bind (emit (StorageSet USER_KEY)) (\<lambda>_ w. (Inr (), w\<lparr>user_data := Some u\<rparr>))"

definition setPendingRegistration :: "pending \<Rightarrow> unit io" where
  "setPendingRegistration p =
     io_bind (emit (StorageSet PENDING_KEY)) (\<lambda>_ w. (Inr (), w\<lparr>pending_registration := Some p\<rparr>))"

definition removePendingRegistration :: "unit io" where
  "removePendingRegistration =
     io_bind (emit (StorageRemove PENDING_KEY)) (\<lambda>_ w. (Inr (), w\<lparr>pending_registration := None\<rparr>))"

definition clearAuthData :: "unit io" where
  "clearAuthData =
     io_bind (emit (StorageRemove TOKEN_KEY)) (\<lambda>_.
     io_bind (\<lambda>w. (Inr (), w\<lparr>auth_token := None\<rparr>)) (\<lambda>_.
     io_bind (emit (StorageRemove REFRESH_TOKEN_KEY)) (\<lambda>_.
     io_bind (\<lambda>w. (Inr (), w\<lparr>refresh_token := None\<rparr>)) (\<lambda>_.
     io_bind (emit (StorageRemove USER_KEY)) (\<lambda>_.
     io_bind (\<lambda>w. (Inr (), w\<lparr>user_data := None\<rparr>)) (\<lambda>_.
     removePendingRegistration))))))"

subsection \<open>Decoding the token\<close>

text \<open>\<open>parseJwt(token)\<close>: the payload is the second segment; nothing checks how many there are.\<close>

definition sum_bind :: "'e + 'a \<Rightarrow> ('a \<Rightarrow> 'e + 'b) \<Rightarrow> 'e + 'b" where
  "sum_bind r f = (case r of Inl e \<Rightarrow> Inl e | Inr x \<Rightarrow> f x)"

definition parseJwt :: "string \<Rightarrow> exn + json" where
  "parseJwt token =
     (case index (split_on CHR ''.'' token) 1 of
        None \<Rightarrow> Inl TypeError
      | Some base64Url \<Rightarrow>
          (let base64 = replace_all CHR ''_'' CHR ''/'' (replace_all CHR ''-'' CHR ''+'' base64Url)
           in sum_bind (atob base64) (\<lambda>bytes.
              sum_bind (decodeURIComponent (percent_encode bytes)) (\<lambda>jsonPayload.
              JSON_parse jsonPayload))))"

text \<open>
  \<open>Date.now() / 1000\<close>, where \<open>Date.now()\<close> returns \<open>now\<close> (milliseconds). A time value
  is an integer of at most \<open>8.64e15\<close>, which is a double as it stands; the quotient is
  rounded.
\<close>

definition seconds :: "nat \<Rightarrow> jsnum" where
  "seconds now = divide_by (round64 (of_nat now)) 1000"

text \<open>
  \<open>isAuthenticated()\<close>, at the time \<open>now\<close> that \<open>Date.now()\<close> returns.
  Everything after the token check runs inside \<open>try\<close>; the \<open>catch\<close> returns \<open>false\<close>.
\<close>

definition isAuthenticated :: "nat \<Rightarrow> bool io" where
  "isAuthenticated now =
     io_bind getToken (\<lambda>token.
     if \<not> truthy token then io_return False
     else
       io_try
         (io_bind (io_lift (parseJwt (the token))) (\<lambda>payload.
          let currentTime = seconds now
          in io_bind (io_lift (get_property payload ''exp'')) (\<lambda>expiry.
             io_bind (io_lift (to_number expiry)) (\<lambda>n.
             io_return (greater_than n currentTime)))))
         (\<lambda>error. io_return False))"

subsection \<open>The session operations\<close>

text \<open>
  \<open>await this.mockApiCall(endpoint, options)\<close> with the gateway in place of the mock:
  the request is made, and the gateway throws or answers.
\<close>

definition apiCall :: "string \<Rightarrow> (exn + 'a reply) \<Rightarrow> 'a reply io" where
  "apiCall endpoint outcome =
     io_bind (emit (Request ''POST'' endpoint)) (\<lambda>_.
     case outcome of Inl e \<Rightarrow> io_throw e | Inr response \<Rightarrow> io_return response)"

text \<open>
  \<open>registerUser(userData)\<close> returns \<open>{success: true, message, userId, requiresOtp: true}\<close>;
  the model returns the \<open>userId\<close>.
\<close>

definition registerUser :: "auth_gateway \<Rightarrow> registration \<Rightarrow> string io" where
  "registerUser api userData =
     io_try
       (if \<not> truthy (reg_email userData) \<or> \<not> truthy (reg_password userData)
           \<or> \<not> truthy (reg_firstName userData) \<or> \<not> truthy (reg_lastName userData)
          then io_throw (Error ''All required fields must be filled'')
        else if \<not> validateEmail (the (reg_email userData))
          then io_throw (Error ''Invalid email format'')
        else if \<not> validatePassword (the (reg_password userData))
          then io_throw (Error ''Password must be at least 8 characters with uppercase, lowercase, and number'')
        else
          io_bind (apiCall ''/auth/register'' (post_register api userData)) (\<lambda>response.
          case response of
            Success userId \<Rightarrow>
              io_then (setPendingRegistration \<lparr>p_email = the (reg_email userData), p_userId = userId\<rparr>)
                (io_return userId)
          | Failure message \<Rightarrow> io_throw (Error (or_else message ''Registration failed''))))
       (log_and_rethrow ''Registration error:'')"

text \<open>\<open>verifyOtp(userId, otp)\<close> returns \<open>{success: true, message, user}\<close>; the model returns the user.\<close>

definition verifyOtp :: "auth_gateway \<Rightarrow> string option \<Rightarrow> string option \<Rightarrow> user io" where
  "verifyOtp api userId otp =
     io_try
       (if \<not> truthy userId \<or> \<not> truthy otp
          then io_throw (Error ''User ID and OTP are required'')
        else if length (the otp) \<noteq> 6
          then io_throw (Error ''OTP must be 6 digits'')
        else
          io_bind (apiCall ''/auth/verify-otp'' (post_verify_otp api (the userId) (the otp))) (\<lambda>response.
          case response of
            Success s \<Rightarrow>
              io_then removePendingRegistration
             (io_then (setTokens (s_token s) (s_refreshToken s))
             (io_then (setUserData (s_user s))
             (io_return (s_user s))))
          | Failure message \<Rightarrow> io_throw (Error (or_else message ''OTP verification failed''))))
       (log_and_rethrow ''OTP verification error:'')"

text \<open>\<open>loginUser(email, password)\<close> returns \<open>{success: true, message, user}\<close>.\<close>

definition loginUser :: "auth_gateway \<Rightarrow> string option \<Rightarrow> string option \<Rightarrow> user io" where
  "loginUser api email password =
     io_try
       (if \<not> truthy email \<or> \<not> truthy password
          then io_throw (Error ''Email and password are required'')
        else if \<not> validateEmail (the email)
          then io_throw (Error ''Invalid email format'')
        else
          io_bind (apiCall ''/auth/login'' (post_login api (the email) (the password))) (\<lambda>response.
          case response of
            Success s \<Rightarrow>
              io_then (setTokens (s_token s) (s_refreshToken s))
             (io_then (setUserData (s_user s))
             (io_then (dispatchEvent (UserLoggedIn (s_user s)))
             (io_return (s_user s))))
          | Failure message \<Rightarrow> io_throw (Error (or_else message ''Login failed''))))
       (log_and_rethrow ''Login error:'')"

text \<open>
  \<open>logoutUser()\<close>. The \<open>catch\<close> block clears the session as well before it rethrows.
\<close>

definition logoutUser :: "auth_gateway \<Rightarrow> string io" where
  "logoutUser api =
     io_try
       (io_bind getToken (\<lambda>token.
        io_then
          (if truthy token
           then io_then (apiCall ''/auth/logout'' (post_logout api (the token))) (io_return ())
           else io_return ())
       (io_then clearAuthData
       (io_then (dispatchEvent UserLoggedOut)
       (io_return ''Logged out successfully'')))))
       (\<lambda>error.
          io_then (emit (ConsoleError ''Logout error:''))
         (io_then clearAuthData
         (io_throw error)))"

text \<open>
  \<open>refreshToken()\<close> returns \<open>{success: true, token}\<close>. Its \<open>catch\<close> block clears the
  session and sets \<open>window.location.href = '/login.html'\<close> before it rethrows.
\<close>

definition navigate :: "string \<Rightarrow> unit io" where
  "navigate url = io_bind (emit (Navigate url)) (\<lambda>_ w. (Inr (), w\<lparr>location_href := url\<rparr>))"

definition refreshToken :: "auth_gateway \<Rightarrow> string io" where
  "refreshToken api =
     io_try
       (io_bind getRefreshToken (\<lambda>stored.
        if \<not> truthy stored then io_throw (Error ''No refresh token available'')
        else
          io_bind (apiCall ''/auth/refresh-token'' (post_refresh_token api (the stored))) (\<lambda>response.
          case response of
            Success t \<Rightarrow>
              io_then (setTokens (t_token t) (t_refreshToken t)) (io_return (t_token t))
          | Failure message \<Rightarrow> io_throw (Error ''Token refresh failed''))))
       (\<lambda>error.
          io_then (emit (ConsoleError ''Token refresh error:''))
         (io_then clearAuthData
         (io_then (navigate ''/login.html'')
         (io_throw error))))"

subsection \<open>The mock gateway of the source\<close>

text \<open>\<open>'' + n\<close> for a non-negative integer: its decimal digits.\<close>

fun decimal :: "nat \<Rightarrow> string" where
  "decimal n =
     (if n < 10 then [''0123456789'' ! n]
      else decimal (n div 10) @ [''0123456789'' ! (n mod 10)])"

declare decimal.simps [simp del]

text \<open>
  \<open>mockApiCall\<close> builds its table of responses on every call and reads \<open>Date.now()\<close>
  eight times while it does; \<open>clock i\<close> is the \<open>i\<close>-th reading. It answers every
  endpoint of the table with \<open>success: true\<close>, whatever the request holds.
\<close>

definition mockApiCall :: "(nat \<Rightarrow> nat) \<Rightarrow> auth_gateway" where
  "mockApiCall clock = \<lparr>
     post_register = (\<lambda>userData. Inr (Success (''user_'' @ decimal (clock 0)))),
     post_verify_otp = (\<lambda>userId otp. Inr (Success \<lparr>
        s_token = ''mock_jwt_token_'' @ decimal (clock 1),
        s_refreshToken = Some (''mock_refresh_token_'' @ decimal (clock 2)),
        s_user = \<lparr>u_id = ''user_'' @ decimal (clock 3), u_email = ''user@example.com'',
          u_firstName = ''John'', u_lastName = ''Doe'', u_phone = Some ''+1234567890'',
          u_dateOfBirth = None, u_gender = None, u_avatar = None, u_verified = True,
          u_createdAt = None\<rparr>\<rparr>)),
     post_login = (\<lambda>email password. Inr (Success \<lparr>
        s_token = ''mock_jwt_token_'' @ decimal (clock 4),
        s_refreshToken = Some (''mock_refresh_token_'' @ decimal (clock 5)),
        s_user = \<lparr>u_id = ''user_123'', u_email = ''user@example.com'',
          u_firstName = ''John'', u_lastName = ''Doe'', u_phone = Some ''+1234567890'',
          u_dateOfBirth = None, u_gender = None, u_avatar = None, u_verified = True,
          u_createdAt = None\<rparr>\<rparr>)),
     post_logout = (\<lambda>token. Inr (Success ())),
     post_refresh_token = (\<lambda>refreshToken. Inr (Success \<lparr>
        t_token = ''new_mock_jwt_token_'' @ decimal (clock 6),
        t_refreshToken = Some (''new_mock_refresh_token_'' @ decimal (clock 7))\<rparr>))\<rparr>"

section \<open>UserService\<close>

definition cacheAddresses :: "address list \<Rightarrow> unit io" where
  "cacheAddresses addresses =
     io_bind (emit (StorageSet ADDRESSES_KEY)) (\<lambda>_ w.
       (Inr (), w\<lparr>user_addresses := Some addresses\<rparr>))"

definition getCachedAddresses :: "address list option io" where
  "getCachedAddresses =
     io_bind (emit (StorageGet ADDRESSES_KEY)) (\<lambda>_ w. (Inr (user_addresses w), w))"

text \<open>
  \<open>UserService.authenticatedRequest(endpoint, options)\<close>: the token check, then the
  request. \<open>outcome\<close> is what the gateway does with this request.
\<close>

definition authenticatedRequest :: "string \<Rightarrow> string \<Rightarrow> (exn + 'a reply) \<Rightarrow> 'a reply io" where
  "authenticatedRequest endpoint http_method outcome =
     io_bind getToken (\<lambda>token.
     if \<not> truthy token then io_throw (Error ''User not authenticated'')
     else
       io_bind (emit (Request http_method endpoint)) (\<lambda>_.
       case outcome of Inl e \<Rightarrow> io_throw e | Inr response \<Rightarrow> io_return response))"

subsection \<open>Validation\<close>

text \<open>\<open>if (data.f) { ... validated.f = data.f.trim(); }\<close>: a missing or empty field is left out.\<close>

definition trimmed :: "string option \<Rightarrow> string option" where
  "trimmed s = (if truthy s then Some (trim (the s)) else None)"

definition copied :: "string option \<Rightarrow> string option" where
  "copied s = (if truthy s then s else None)"

definition validateProfileData :: "profile_data \<Rightarrow> exn + profile_data" where
  "validateProfileData d =
     (if truthy (pd_firstName d) \<and> length (the (pd_firstName d)) < 2
        then Inl (Error ''First name must be at least 2 characters'')
      else if truthy (pd_lastName d) \<and> length (the (pd_lastName d)) < 2
        then Inl (Error ''Last name must be at least 2 characters'')
      else if truthy (pd_email d) \<and> \<not> validateEmail (the (pd_email d))
        then Inl (Error ''Invalid email format'')
      else if truthy (pd_phone d) \<and> \<not> validatePhone (the (pd_phone d))
        then Inl (Error ''Invalid phone number format'')
      else Inr \<lparr>pd_firstName = trimmed (pd_firstName d),
                pd_lastName = trimmed (pd_lastName d),
                pd_email = map_option toLowerCase (trimmed (pd_email d)),
                pd_phone = trimmed (pd_phone d),
                pd_dateOfBirth = copied (pd_dateOfBirth d),
                pd_gender = copied (pd_gender d)\<rparr>)"

text \<open>The loop over \<open>required\<close>: the first field that is missing or blank, in the order of the list.\<close>

definition required_fields :: "address_input \<Rightarrow> (string \<times> string option) list" where
  "required_fields d =
     [(''fullName'', in_fullName d), (''addressLine1'', in_addressLine1 d), (''city'', in_city d),
      (''state'', in_state d), (''zipCode'', in_zipCode d), (''country'', in_country d),
      (''phone'', in_phone d)]"

definition blank :: "string option \<Rightarrow> bool" where
  "blank s = (\<not> truthy s \<or> trim (the s) = [])"

definition validateAddressData :: "address_input \<Rightarrow> exn + address_data" where
  "validateAddressData d =
     (case find (\<lambda>(field, v). blank v) (required_fields d) of
        Some (field, v) \<Rightarrow> Inl (Error (field @ '' is required''))
      | None \<Rightarrow>
          if \<not> rx_test zipRegex (the (in_zipCode d)) then Inl (Error ''Invalid zip code format'')
          else if \<not> validatePhone (the (in_phone d)) then Inl (Error ''Invalid phone number format'')
          else Inr \<lparr>fullName = trim (the (in_fullName d)),
                    addressLine1 = trim (the (in_addressLine1 d)),
                    addressLine2 = (if truthy (in_addressLine2 d) then trim (the (in_addressLine2 d)) else []),
                    city = trim (the (in_city d)),
                    state = trim (the (in_state d)),
                    zipCode = trim (the (in_zipCode d)),
                    country = trim (the (in_country d)),
                    phone = trim (the (in_phone d)),
                    addressType = or_else (in_addressType d) ''home'',
                    isDefault = (case in_isDefault d of None \<Rightarrow> False | Some b \<Rightarrow> b)\<rparr>)"

subsection \<open>Profile management\<close>

text \<open>
  \<open>getUserProfile()\<close> returns \<open>{success: true, user}\<close>, with \<open>cached: true\<close> when the
  user is the locally cached one.
\<close>

record profile_result =
  res_user :: user
  res_cached :: bool

definition getUserProfile :: "user_gateway \<Rightarrow> profile_result io" where
  "getUserProfile gw =
     io_try
       (io_bind getToken (\<lambda>token.
        if \<not> truthy token then io_throw (Error ''User not authenticated'')
        else
          io_bind getCurrentUser (\<lambda>cachedUser.
          io_bind (authenticatedRequest ''/user/profile'' ''GET'' (get_profile gw)) (\<lambda>response.
          case response of
            Success u \<Rightarrow>
              io_then (setUserData u) (io_return \<lparr>res_user = u, res_cached = False\<rparr>)
          | Failure message \<Rightarrow>
              (case cachedUser of
                 Some u \<Rightarrow> io_return \<lparr>res_user = u, res_cached = True\<rparr>
               | None \<Rightarrow> io_throw (Error (or_else message ''Failed to fetch profile'')))))))
       (log_and_rethrow ''Get profile error:'')"

definition updateUserProfile :: "user_gateway \<Rightarrow> profile_data \<Rightarrow> (string \<times> user) io" where
  "updateUserProfile gw profileData =
     io_try
       (io_bind getToken (\<lambda>token.
        if \<not> truthy token then io_throw (Error ''User not authenticated'')
        else
          io_bind (io_lift (validateProfileData profileData)) (\<lambda>validatedData.
          io_bind (authenticatedRequest ''/user/profile'' ''PUT'' (put_profile gw validatedData)) (\<lambda>response.
          case response of
            Success u \<Rightarrow>
              io_then (setUserData u)
             (io_then (dispatchEvent (ProfileUpdated u))
             (io_return (''Profile updated successfully'', u)))
          | Failure message \<Rightarrow>
              io_throw (Error (or_else message ''Failed to update profile''))))))
       (log_and_rethrow ''Update profile error:'')"

text \<open>
  \<open>updateProfilePicture(imageFile)\<close>. \<open>currentUser.avatar = ...\<close> throws a TypeError when
  no user is cached (\<open>getCurrentUser()\<close> is \<open>null\<close>).
\<close>

definition updateProfilePicture :: "user_gateway \<Rightarrow> image_file option \<Rightarrow> (string \<times> string option) io" where
  "updateProfilePicture gw imageFile =
     io_try
       (io_bind getToken (\<lambda>token.
        if \<not> truthy token then io_throw (Error ''User not authenticated'')
        else if imageFile = None \<or> \<not> startsWith (file_type (the imageFile)) ''image/''
          then io_throw (Error ''Please select a valid image file'')
        else if file_size (the imageFile) > 5 * 1024 * 1024
          then io_throw (Error ''Image size must be less than 5MB'')
        else
          io_bind (authenticatedRequest ''/user/profile/avatar'' ''POST'' (post_avatar gw (the imageFile)))
            (\<lambda>response.
          case response of
            Success avatarUrl \<Rightarrow>
              io_bind getCurrentUser (\<lambda>currentUser.
              case currentUser of
                None \<Rightarrow> io_throw TypeError
              | Some u \<Rightarrow>
                  io_then (setUserData (u\<lparr>u_avatar := avatarUrl\<rparr>))
                    (io_return (''Profile picture updated successfully'', avatarUrl)))
          | Failure message \<Rightarrow>
              io_throw (Error (or_else message ''Failed to upload profile picture'')))))
       (log_and_rethrow ''Update profile picture error:'')"

text \<open>\<open>deleteAccount(password)\<close>: on success it runs \<open>authService.logoutUser()\<close>.\<close>

definition deleteAccount :: "user_gateway \<Rightarrow> auth_gateway \<Rightarrow> string option \<Rightarrow> string io" where
  "deleteAccount gw api password =
     io_try
       (io_bind getToken (\<lambda>token.
        if \<not> truthy token then io_throw (Error ''User not authenticated'')
        else if \<not> truthy password then io_throw (Error ''Password is required to delete account'')
        else
          io_bind (authenticatedRequest ''/user/account'' ''DELETE'' (delete_account gw (the password)))
            (\<lambda>response.
          case response of
            Success _ \<Rightarrow>
              io_then (logoutUser api) (io_return ''Account deleted successfully'')
          | Failure message \<Rightarrow>
              io_throw (Error (or_else message ''Failed to delete account'')))))
       (log_and_rethrow ''Delete account error:'')"

subsection \<open>Address management\<close>

text \<open>\<open>listAddresses()\<close> returns \<open>{success: true, addresses}\<close>, with \<open>cached: true\<close> on the fallback.\<close>

record addresses_result =
  res_addresses :: "address list"
  res_from_cache :: bool

definition listAddresses :: "user_gateway \<Rightarrow> addresses_result io" where
  "listAddresses gw =
     io_try
       (io_bind getToken (\<lambda>token.
        if \<not> truthy token then io_throw (Error ''User not authenticated'')
        else
          io_bind getCachedAddresses (\<lambda>cachedAddresses.
          io_bind (authenticatedRequest ''/user/addresses'' ''GET'' (get_addresses gw)) (\<lambda>response.
          case response of
            Success addresses \<Rightarrow>
              io_then (cacheAddresses addresses)
                (io_return \<lparr>res_addresses = addresses, res_from_cache = False\<rparr>)
          | Failure message \<Rightarrow>
              (case cachedAddresses of
                 Some addresses \<Rightarrow> io_return \<lparr>res_addresses = addresses, res_from_cache = True\<rparr>
               | None \<Rightarrow> io_throw (Error (or_else message ''Failed to fetch addresses'')))))))
       (log_and_rethrow ''List addresses error:'')"

definition getAddress :: "user_gateway \<Rightarrow> string \<Rightarrow> address io" where
  "getAddress gw addressId =
     io_try
       (io_bind getToken (\<lambda>token.
        if \<not> truthy token then io_throw (Error ''User not authenticated'')
        else
          io_bind (authenticatedRequest (''/user/addresses/'' @ addressId) ''GET'' (get_address gw addressId))
            (\<lambda>response.
          case response of
            Success a \<Rightarrow> io_return a
          | Failure message \<Rightarrow> io_throw (Error (or_else message ''Failed to fetch address'')))))
       (log_and_rethrow ''Get address error:'')"

definition addAddress :: "user_gateway \<Rightarrow> address_input \<Rightarrow> (string \<times> address) io" where
  "addAddress gw addressData =
     io_try
       (io_bind getToken (\<lambda>token.
        if \<not> truthy token then io_throw (Error ''User not authenticated'')
        else
          io_bind (io_lift (validateAddressData addressData)) (\<lambda>validatedAddress.
          io_bind (authenticatedRequest ''/user/addresses'' ''POST'' (post_address gw validatedAddress))
            (\<lambda>response.
          case response of
            Success a \<Rightarrow>
              io_bind getCachedAddresses (\<lambda>cached.
              let addresses = (case cached of Some as \<Rightarrow> as | None \<Rightarrow> [])
              in io_then (cacheAddresses (addresses @ [a]))
                (io_then (dispatchEvent (AddressAdded a))
                (io_return (''Address added successfully'', a))))
          | Failure message \<Rightarrow> io_throw (Error (or_else message ''Failed to add address''))))))
       (log_and_rethrow ''Add address error:'')"

text \<open>\<open>addresses.findIndex(addr => addr.id === addressId)\<close>: the first index, or \<open>None\<close> for -1.\<close>

fun findIndex :: "('a \<Rightarrow> bool) \<Rightarrow> 'a list \<Rightarrow> nat option" where
  "findIndex P [] = None"
| "findIndex P (x # xs) = (if P x then Some 0 else map_option Suc (findIndex P xs))"

definition updateAddress :: "user_gateway \<Rightarrow> string option \<Rightarrow> address_input \<Rightarrow> (string \<times> address) io" where
  "updateAddress gw addressId addressData =
     io_try
       (io_bind getToken (\<lambda>token.
        if \<not> truthy token then io_throw (Error ''User not authenticated'')
        else if \<not> truthy addressId then io_throw (Error ''Address ID is required'')
        else
          io_bind (io_lift (validateAddressData addressData)) (\<lambda>validatedAddress.
          io_bind (authenticatedRequest (''/user/addresses/'' @ the addressId) ''PUT''
                     (put_address gw (the addressId) validatedAddress)) (\<lambda>response.
          case response of
            Success a \<Rightarrow>
              io_bind getCachedAddresses (\<lambda>cached.
              let addresses = (case cached of Some as \<Rightarrow> as | None \<Rightarrow> [])
              in io_then
                   (case findIndex (\<lambda>addr. addr_id addr = the addressId) addresses of
                      Some i \<Rightarrow> cacheAddresses (addresses[i := a])
                    | None \<Rightarrow> io_return ())
                (io_then (dispatchEvent (AddressUpdated a))
                (io_return (''Address updated successfully'', a))))
          | Failure message \<Rightarrow> io_throw (Error (or_else message ''Failed to update address''))))))
       (log_and_rethrow ''Update address error:'')"

definition deleteAddress :: "user_gateway \<Rightarrow> string option \<Rightarrow> string io" where
  "deleteAddress gw addressId =
     io_try
       (io_bind getToken (\<lambda>token.
        if \<not> truthy token then io_throw (Error ''User not authenticated'')
        else if \<not> truthy addressId then io_throw (Error ''Address ID is required'')
        else
          io_bind (authenticatedRequest (''/user/addresses/'' @ the addressId) ''DELETE''
                     (delete_address gw (the addressId))) (\<lambda>response.
          case response of
            Success _ \<Rightarrow>
              io_bind getCachedAddresses (\<lambda>cached.
              let addresses = (case cached of Some as \<Rightarrow> as | None \<Rightarrow> []);
                  filteredAddresses = filter (\<lambda>addr. addr_id addr \<noteq> the addressId) addresses
              in io_then (cacheAddresses filteredAddresses)
                (io_then (dispatchEvent (AddressDeleted (the addressId)))
                (io_return ''Address deleted successfully'')))
          | Failure message \<Rightarrow> io_throw (Error (or_else message ''Failed to delete address'')))))
       (log_and_rethrow ''Delete address error:'')"

text \<open>
  \<open>setDefaultAddress(addressId)\<close>. On success the flag of every cached entry is
  rewritten: \<open>addresses.forEach(addr => { addr.isDefault = addr.id === addressId; })\<close>.
\<close>

definition mark_default :: "string \<Rightarrow> address list \<Rightarrow> address list" where
  "mark_default aid as = map (\<lambda>addr. addr\<lparr>isDefault := (addr_id addr = aid)\<rparr>) as"

definition setDefaultAddress :: "user_gateway \<Rightarrow> string option \<Rightarrow> string io" where
  "setDefaultAddress gw addressId =
     io_try
       (io_bind getToken (\<lambda>token.
        if \<not> truthy token then io_throw (Error ''User not authenticated'')
        else if \<not> truthy addressId then io_throw (Error ''Address ID is required'')
        else
          io_bind (authenticatedRequest (''/user/addresses/'' @ the addressId @ ''/default'') ''PUT''
                     (put_default gw (the addressId))) (\<lambda>response.
          case response of
            Success _ \<Rightarrow>
              io_bind getCachedAddresses (\<lambda>cached.
              let addresses = (case cached of Some as \<Rightarrow> as | None \<Rightarrow> [])
              in io_then (cacheAddresses (mark_default (the addressId) addresses))
                   (io_return ''Default address updated successfully''))
          | Failure message \<Rightarrow>
              io_throw (Error (or_else message ''Failed to set default address'')))))
       (log_and_rethrow ''Set default address error:'')"

text \<open>The cached collection as the address writes read it: \<open>this.getCachedAddresses() || []\<close>.\<close>

definition cache_of :: "world \<Rightarrow> address list" where
  "cache_of w = (case user_addresses w of None \<Rightarrow> [] | Some a \<Rightarrow> a)"

section \<open>Example data\<close>

text \<open>
  The two addresses of the source's mock table (\<open>/user/addresses\<close>), a gateway that
  accepts every request, and a browser state with a stored token and a given address
  cache. The pages of the examples have loaded the \<open>AuthStateManager\<close> and the
  \<open>UserService\<close>.
\<close>

definition addr_1 :: address where
  "addr_1 = \<lparr>fullName = ''John Doe'', addressLine1 = ''123 Main St'', addressLine2 = ''Apt 4B'',
     city = ''New York'', state = ''NY'', zipCode = ''10001'', country = ''USA'',
     phone = ''+1234567890'', addressType = ''home'', isDefault = True, addr_id = ''addr_1''\<rparr>"

definition addr_2 :: address where
  "addr_2 = \<lparr>fullName = ''John Doe'', addressLine1 = ''456 Office Blvd'', addressLine2 = ''Suite 200'',
     city = ''New York'', state = ''NY'', zipCode = ''10002'', country = ''USA'',
     phone = ''+1234567890'', addressType = ''work'', isDefault = False, addr_id = ''addr_2''\<rparr>"

definition john :: user where
  "john = \<lparr>u_id = ''user_123'', u_email = ''user@example.com'', u_firstName = ''John'',
     u_lastName = ''Doe'', u_phone = Some ''+1234567890'', u_dateOfBirth = None, u_gender = None,
     u_avatar = None, u_verified = True, u_createdAt = None\<rparr>"

definition with_id :: "string \<Rightarrow> address_data \<Rightarrow> address" where
  "with_id i d = \<lparr>fullName = fullName d, addressLine1 = addressLine1 d, addressLine2 = addressLine2 d,
     city = city d, state = state d, zipCode = zipCode d, country = country d, phone = phone d,
     addressType = addressType d, isDefault = isDefault d, addr_id = i\<rparr>"

definition accepting_gateway :: user_gateway where
  "accepting_gateway = \<lparr>
     get_profile = Inr (Success john),
     put_profile = (\<lambda>d. Inr (Success john)),
     post_avatar = (\<lambda>f. Inr (Success (Some ''https://via.placeholder.com/150''))),
     delete_account = (\<lambda>p. Inr (Success ())),
     get_addresses = Inr (Success [addr_1, addr_2]),
     get_address = (\<lambda>i. Inr (Success addr_1)),
     post_address = (\<lambda>d. Inr (Success (with_id ''addr_3'' d))),
     put_address = (\<lambda>i d. Inr (Success (with_id i d))),
     delete_address = (\<lambda>i. Inr (Success ())),
     put_default = (\<lambda>i. Inr (Success ()))\<rparr>"

definition session_world :: "address list \<Rightarrow> world" where
  "session_world as = \<lparr>auth_token = Some ''t'', refresh_token = None, user_data = None,
     user_addresses = Some as, pending_registration = None, location_href = [],
     auth_state_manager = True, user_service = True, trace = []\<rparr>"

text \<open>
  A browser in which nothing is stored, and one with a token and the cached user
  \<open>john\<close>.
\<close>

definition anonymous_world :: world where
  "anonymous_world = \<lparr>auth_token = None, refresh_token = None, user_data = None,
     user_addresses = None, pending_registration = None, location_href = [],
     auth_state_manager = True, user_service = True, trace = []\<rparr>"

definition profile_world :: world where
  "profile_world = anonymous_world\<lparr>auth_token := Some ''t'', user_data := Some john\<rparr>"

text \<open>Arguments for the UserService writes.\<close>

definition new_phone :: profile_data where
  "new_phone = \<lparr>pd_firstName = None, pd_lastName = None, pd_email = None,
     pd_phone = Some ''+1234567890'', pd_dateOfBirth = None, pd_gender = None\<rparr>"

definition office :: address_input where
  "office = \<lparr>in_fullName = Some ''John Doe'', in_addressLine1 = Some ''456 Office Blvd'',
     in_addressLine2 = Some ''Suite 200'', in_city = Some ''New York'', in_state = Some ''NY'',
     in_zipCode = Some ''10002'', in_country = Some ''USA'', in_phone = Some ''+1234567890'',
     in_addressType = Some ''work'', in_isDefault = None\<rparr>"

definition photo :: image_file where
  "photo = \<lparr>file_type = ''image/png'', file_size = 2048\<rparr>"

text \<open>
  A token of three segments whose payload is
  \<^verbatim>\<open>{"sub":"user_123","exp":1700000000}\<close>, and a string of two segments whose
  second is the payload \<^verbatim>\<open>{"exp":9999999999}\<close>.
\<close>

definition sample_jwt :: string where
  "sample_jwt = ''eyJhbGciOiJIUzI1NiIsInR5cCI6IkpXVCJ9.eyJzdWIiOiJ1c2VyXzEyMyIsImV4cCI6MTcwMDAwMDAwMH0.sig''"

definition two_segments :: string where
  "two_segments = ''x.eyJleHAiOjk5OTk5OTk5OTl9''"

text \<open>
  Tokens whose payloads are \<^verbatim>\<open>{"exp":1700000000.0000001}\<close>,
  \<^verbatim>\<open>{"exp":1e-400}\<close> and \<^verbatim>\<open>{"exp":1e400}\<close>.
\<close>

definition fractional_expiry :: string where
  "fractional_expiry = ''h.eyJleHAiOjE3MDAwMDAwMDAuMDAwMDAwMX0.s''"

definition tiny_expiry :: string where
  "tiny_expiry = ''h.eyJleHAiOjFlLTQwMH0.s''"

definition huge_expiry :: string where
  "huge_expiry = ''h.eyJleHAiOjFlNDAwfQ.s''"

text \<open>
  A browser in which a registration is pending, and what the mock's answer to
  \<open>verifyOtp\<close> makes of it.
\<close>

definition pending_world :: world where
  "pending_world = anonymous_world\<lparr>pending_registration :=
     Some \<lparr>p_email = ''user@example.com'', p_userId = ''user_1''\<rparr>\<rparr>"

definition verified_user :: "(nat \<Rightarrow> nat) \<Rightarrow> user" where
  "verified_user clock = john\<lparr>u_id := ''user_'' @ decimal (clock 3)\<rparr>"

definition verified_world :: "(nat \<Rightarrow> nat) \<Rightarrow> world" where
  "verified_world clock = anonymous_world\<lparr>
     auth_token := Some (''mock_jwt_token_'' @ decimal (clock 1)),
     refresh_token := Some (''mock_refresh_token_'' @ decimal (clock 2)),
     user_data := Some (verified_user clock),
     trace := [Request ''POST'' ''/auth/verify-otp'', StorageRemove PENDING_KEY, StorageSet TOKEN_KEY,
               StorageSet REFRESH_TOKEN_KEY, StorageSet USER_KEY]\<rparr>"

text \<open>The registration of scenario B.\<close>

definition scenario_B :: registration where
  "scenario_B = \<lparr>reg_email = Some ''bad-email'', reg_password = Some ''weak'',
     reg_firstName = Some ''A'', reg_lastName = Some ''B'', reg_phone = None\<rparr>"

section \<open>Notions of the claims\<close>

text \<open>
  The outcome of a UserService call that stops at its token check: it throws
  \<open>User not authenticated\<close>; the only effects are the read of the token and the
  \<open>console.error\<close> of the \<open>catch\<close> block. Nothing stored changes.
\<close>

definition denied :: "string \<Rightarrow> world \<Rightarrow> (exn + 'a) \<times> world" where
  "denied label w = (Inl (Error ''User not authenticated''),
     w\<lparr>trace := trace w @ [StorageGet TOKEN_KEY, ConsoleError label]\<rparr>)"

text \<open>Nothing of a session is stored: no token, no refresh token, no user, no pending registration.\<close>

definition logged_out :: "world \<Rightarrow> bool" where
  "logged_out w = (auth_token w = None \<and> refresh_token w = None \<and> user_data w = None
     \<and> pending_registration w = None)"

text \<open>
  A state in which a logout finds nothing to remove: nothing of a session is stored
  and, on a page where \<open>handleLogout\<close> is listening and finds \<open>userService\<close>, no
  addresses are cached.
\<close>

definition settled :: "world \<Rightarrow> bool" where
  "settled w = (logged_out w \<and> (auth_state_manager w \<and> user_service w \<longrightarrow> user_addresses w = None))"

text \<open>The effects of a \<open>logoutUser\<close> call that finds no token, in their order.\<close>

definition logout_effects :: "world \<Rightarrow> effect list" where
  "logout_effects w =
     [StorageGet TOKEN_KEY, StorageRemove TOKEN_KEY, StorageRemove REFRESH_TOKEN_KEY,
      StorageRemove USER_KEY, StorageRemove PENDING_KEY, Dispatch UserLoggedOut]
     @ (if auth_state_manager w \<and> user_service w then [StorageRemove ADDRESSES_KEY] else [])"

text \<open>
  The password rule in the words of the specification: length at least 8, an
  upper-case letter, a lower-case letter and a digit. The letters and digits are those
  of ASCII, which are the ones the pattern of the source looks for.
\<close>

definition password_rule :: "string \<Rightarrow> bool" where
  "password_rule p = (length p \<ge> 8 \<and> list_ex is_upper p \<and> list_ex is_lower p \<and> list_ex is_digit p)"

text \<open>
  The expiry a token decodes to, as \<open>isAuthenticated\<close> reads it: the payload of
  \<open>parseJwt\<close>, its \<open>exp\<close> property, as a number.
\<close>

definition decodeExpiry :: "string \<Rightarrow> exn + jsnum" where
  "decodeExpiry token =
     sum_bind (parseJwt token) (\<lambda>payload.
     sum_bind (get_property payload ''exp'') to_number)"

text \<open>The messages of the three validation errors of \<open>registerUser\<close>.\<close>

definition validation_messages :: "string list" where
  "validation_messages = [''All required fields must be filled'', ''Invalid email format'',
     ''Password must be at least 8 characters with uppercase, lowercase, and number'']"

section \<open>What a pattern matches\<close>

text \<open>
  The set of strings a pattern stands for, to state what \<open>rx_test\<close> decides.
\<close>

inductive_set star :: "string set \<Rightarrow> string set" for A :: "string set" where
  star_empty: "[] \<in> star A"
| star_more: "u \<in> A \<Longrightarrow> v \<in> star A \<Longrightarrow> u @ v \<in> star A"

fun lang :: "rx \<Rightarrow> string set" where
  "lang Void = {}"
| "lang Eps = {[]}"
| "lang (Sym p) = {[c] | c. p c}"
| "lang (Alt r s) = lang r \<union> lang s"
| "lang (Cat r s) = {u @ v | u v. u \<in> lang r \<and> v \<in> lang s}"
| "lang (Rep r) = star (lang r)"
| "lang (Both r s) = lang r \<inter> lang s"

section \<open>Properties\<close>

subsection \<open>Unfolding the definitions on a given input\<close>

lemma truthy_simps [simp]:
  "truthy None = False" "truthy (Some v) = (v \<noteq> [])"
  by (simp_all add: truthy_def)

lemmas io_defs = io_return_def io_throw_def io_bind_def io_then_def io_try_def emit_def log_and_rethrow_def
  dispatchEvent_def handlers_def

lemmas char_defs = char_code_def is_space_def is_digit_def is_lower_def is_upper_def is_dot_char_def

lemmas runtime_defs = atob_def is_ascii_ws_def b64_value_def strip_padding_def Let_def
  percent_encode_def hex_digit_def decodeURIComponent_def hex_value_def utf16_def
  JSON_parse_def units_def is_digit_unit_def digits_value_def scale_def exponent_part_def
  json_number_def json_word_def is_json_ws_def punctuation_def delimiter_def is_number_unit_def
  escaped_def hex_unit_def finish_def
  parseJwt_def index_def replace_all_def sum_bind_def
  get_property_def is_js_space_def trim_units_def radix_value_def radix_literal_def
  decimal_literal_def string_to_number_def to_number_def

lemmas rx_defs = rx_chr_def rx_opt_def rx_plus_def rx_range_def rx_atleast_def rx_seq_def rx_ahead_def
  not_space_at_def emailRegex_def passwordRegex_def is_separator_def phoneRegex_def zipRegex_def
  validateEmail_def validatePassword_def validatePhone_def

subsection \<open>Rounding to a double\<close>

lemma bits_from_numeral:
  "bits_from a 0 = a" "bits_from a 1 = a + 1" "bits_from a (Suc 0) = a + 1"
  "bits_from a (numeral k) = bits_from (a + 1) (numeral k div 2)"
  by (simp_all add: bits_from.simps [of a 0] bits_from.simps [of a 1] bits_from.simps [of a "Suc 0"]
        bits_from.simps [of a "numeral k"] bits_from.simps [of "a + 1" 0] bits_from.simps [of "Suc a" 0])

lemma floor_rat_numeral:
  "\<lfloor>numeral a / numeral b :: rat\<rfloor> = numeral a div numeral b"
  "\<lfloor>1 / numeral b :: rat\<rfloor> = 1 div numeral b"
  using floor_divide_of_int_eq [of "numeral a" "numeral b", where ?'a = rat]
    floor_divide_of_int_eq [of 1 "numeral b", where ?'a = rat] by simp_all

lemma ceiling_rat_numeral:
  "\<lceil>numeral a / numeral b :: rat\<rceil> = - ((- numeral a) div numeral b)"
  "\<lceil>1 / numeral b :: rat\<rceil> = - ((- 1) div numeral b)"
  using floor_divide_of_int_eq [of "- numeral a" "numeral b", where ?'a = rat]
    floor_divide_of_int_eq [of "- 1" "numeral b", where ?'a = rat]
  by (simp_all add: ceiling_def)

text \<open>\<open>round64\<close> step by step: the exponent, the spacing, the multiple.\<close>

lemma round64_eval:
  assumes "x \<noteq> 0" and "binary_exponent \<bar>x\<bar> = e" and "pow2 (max e (- 1022) - 52) = u"
    and "round_half_even (\<bar>x\<bar> / u) = n" and "of_int n * u = m"
  shows "round64 x = (if m \<ge> pow2 1024 then (if x < 0 then NegInfinity else PosInfinity)
                      else Finite (if x < 0 then - m else m))"
  unfolding round64_def Let_def assms(2) assms(3) assms(4) assms(5) using assms(1) by simp

lemmas exponent_eval = binary_exponent_def bit_length_def bits_from_numeral floor_rat_numeral ceiling_rat_numeral
lemmas rounding_eval = round_half_even_def Let_def floor_rat_numeral

text \<open>\<open>bit_length\<close> counts the binary digits, and \<open>binary_exponent\<close> is the exponent.\<close>

lemma bits_from_add: "bits_from acc n = acc + bits_from 0 n"
proof (induction n arbitrary: acc rule: less_induct)
  case (less n)
  show ?case
  proof (cases "n = 0")
    case True
    then show ?thesis by (simp add: bits_from.simps [of _ 0])
  next
    case False
    then have d: "n div 2 < n" by simp
    have "bits_from acc n = bits_from (acc + 1) (n div 2)"
      using False by (subst bits_from.simps) simp
    also have "\<dots> = acc + 1 + bits_from 0 (n div 2)"
      by (rule less.IH [OF d])
    finally have a: "bits_from acc n = acc + 1 + bits_from 0 (n div 2)" .
    have "bits_from 0 n = bits_from (0 + 1) (n div 2)"
      using False by (subst bits_from.simps) simp
    also have "\<dots> = 0 + 1 + bits_from 0 (n div 2)"
      by (rule less.IH [OF d])
    finally show ?thesis using a by simp
  qed
qed

lemma bit_length_0: "bit_length 0 = 0"
  by (simp add: bit_length_def bits_from.simps [of _ 0])

lemma bit_length_step: "n \<noteq> 0 \<Longrightarrow> bit_length n = Suc (bit_length (n div 2))"
  unfolding bit_length_def
  by (subst bits_from.simps) (simp add: bits_from_add [of "Suc 0"])

lemma bit_length_bounds: "n \<noteq> 0 \<Longrightarrow> 2 ^ (bit_length n - 1) \<le> n \<and> n < 2 ^ bit_length n"
proof (induction n rule: less_induct)
  case (less n)
  show ?case
  proof (cases "n div 2 = 0")
    case True
    with less.prems have "n = 1" by (simp add: div_eq_0_iff)
    then show ?thesis by (simp add: bit_length_step bit_length_0)
  next
    case False
    have d: "n div 2 < n" using less.prems by simp
    from less.IH [OF d False]
    have l: "2 ^ (bit_length (n div 2) - 1) \<le> n div 2" and u: "n div 2 < 2 ^ bit_length (n div 2)"
      by simp_all
    have p: "bit_length (n div 2) \<noteq> 0"
      using False by (simp add: bit_length_step)
    have "(2::nat) ^ bit_length (n div 2) = 2 * 2 ^ (bit_length (n div 2) - 1)"
      using p by (cases "bit_length (n div 2)") simp_all
    with l have "2 ^ bit_length (n div 2) \<le> 2 * (n div 2)" by simp
    then have "2 ^ bit_length (n div 2) \<le> n" by simp
    moreover from u have "n < 2 * 2 ^ bit_length (n div 2)" by simp
    ultimately show ?thesis using less.prems by (simp add: bit_length_step)
  qed
qed

lemma bit_length_bounds_rat:
  assumes "n \<noteq> 0"
  shows "(2::rat) ^ (bit_length n - 1) \<le> of_nat n" and "of_nat n + 1 \<le> (2::rat) ^ bit_length n"
proof -
  from bit_length_bounds [OF assms]
  have l: "2 ^ (bit_length n - 1) \<le> n" and u: "Suc n \<le> 2 ^ bit_length n" by simp_all
  from l have "(of_nat (2 ^ (bit_length n - 1)) :: rat) \<le> of_nat n"
    by (simp only: of_nat_le_iff)
  then show "(2::rat) ^ (bit_length n - 1) \<le> of_nat n" by simp
  from u have "(of_nat (Suc n) :: rat) \<le> of_nat (2 ^ bit_length n)"
    by (simp only: of_nat_le_iff)
  then show "of_nat n + 1 \<le> (2::rat) ^ bit_length n" by simp
qed

lemma binary_exponent_bounds:
  assumes "a > 0"
  shows "pow2 (binary_exponent a) \<le> a \<and> a < pow2 (binary_exponent a + 1)"
proof (cases "a \<ge> 1")
  case True
  let ?n = "nat \<lfloor>a\<rfloor>"
  have n: "?n \<noteq> 0" using True by simp
  have "of_int \<lfloor>a\<rfloor> \<le> a" and "a < of_int \<lfloor>a\<rfloor> + 1" by linarith+
  then have fl: "of_nat ?n \<le> a" and fu: "a < of_nat ?n + 1"
    using True by simp_all
  have b: "bit_length ?n \<noteq> 0" using n by (simp add: bit_length_step)
  have e: "binary_exponent a = int (bit_length ?n) - 1"
    using True by (simp add: binary_exponent_def)
  have "pow2 (binary_exponent a) = 2 ^ (bit_length ?n - 1)"
    using b by (simp add: e pow2_def nat_diff_distrib')
  moreover have "pow2 (binary_exponent a + 1) = 2 ^ bit_length ?n"
    by (simp add: e pow2_def)
  moreover have "2 ^ (bit_length ?n - 1) \<le> a"
    using bit_length_bounds_rat(1) [OF n] fl by (rule order_trans)
  moreover have "a < 2 ^ bit_length ?n"
    using fu bit_length_bounds_rat(2) [OF n] by (rule less_le_trans)
  ultimately show ?thesis
    by (simp only: simp_thms)
next
  case False
  let ?c = "nat (\<lceil>1 / a\<rceil> - 1)"
  from False assms have i: "1 / a > 1" by simp
  then have "\<lceil>1 / a\<rceil> \<ge> 2" by linarith
  then have c: "?c \<noteq> 0" and k: "0 \<le> \<lceil>1 / a\<rceil> - 1" using assms by simp_all
  have cc: "(of_nat ?c :: rat) = of_int \<lceil>1 / a\<rceil> - 1"
    using of_nat_nat [OF k, where ?'a = rat] by simp
  have "of_int \<lceil>1 / a\<rceil> - 1 < 1 / a" and "1 / a \<le> of_int \<lceil>1 / a\<rceil>" by linarith+
  then have cl: "of_nat ?c < 1 / a" and cu: "1 / a \<le> of_nat ?c + 1"
    using cc by simp_all
  have b: "bit_length ?c \<noteq> 0" using c by (simp add: bit_length_step)
  have e: "binary_exponent a = - int (bit_length ?c)"
    using False by (simp add: binary_exponent_def)
  have p1: "pow2 (binary_exponent a) = 1 / 2 ^ bit_length ?c"
    using b by (simp add: e pow2_def)
  have p2: "pow2 (binary_exponent a + 1) = 1 / 2 ^ (bit_length ?c - 1)"
  proof (cases "bit_length ?c = 1")
    case True
    then show ?thesis by (simp add: e pow2_def)
  next
    case False
    with b have "bit_length ?c \<ge> 2" by simp
    then show ?thesis by (simp add: e pow2_def nat_diff_distrib')
  qed
  have "(2::rat) ^ (bit_length ?c - 1) < 1 / a"
    using bit_length_bounds_rat(1) [OF c] cl by (rule le_less_trans)
  moreover have "1 / a \<le> (2::rat) ^ bit_length ?c"
    using cu bit_length_bounds_rat(2) [OF c] by (rule order_trans)
  ultimately
  have "a < 1 / 2 ^ (bit_length ?c - 1)" and "1 / 2 ^ bit_length ?c \<le> a"
    using assms by (simp_all add: field_simps)
  then show ?thesis by (simp add: p1 p2)
qed

text \<open>An integer below \<open>2 ^ 53\<close> is a double as it stands.\<close>

lemma round_half_even_int: "round_half_even (of_int k) = k"
  by (simp add: round_half_even_def)

lemma round64_nat:
  assumes "n < 2 ^ 53"
  shows "round64 (of_nat n) = Finite (of_nat n)"
proof (cases "n = 0")
  case True
  then show ?thesis by (simp add: round64_def)
next
  case False
  let ?b = "bit_length n"
  have b0: "?b \<noteq> 0" using False by (simp add: bit_length_step)
  from bit_length_bounds [OF False] assms have "(2::nat) ^ (?b - 1) < 2 ^ 53" by simp
  then have "?b - 1 < 53" by (simp only: power_strict_increasing_iff)
  then have b53: "?b \<le> 53" by simp
  define j where "j = 53 - ?b"
  have a: "\<bar>rat_of_nat n\<bar> = of_nat n" by simp
  have e: "binary_exponent (of_nat n) = int ?b - 1"
    using False by (simp add: binary_exponent_def)
  have m: "max (int ?b - 1) (- 1022) - 52 = - int j"
    using b53 by (simp add: j_def)
  have u: "pow2 (- int j) = 1 / 2 ^ j"
    by (simp add: pow2_def)
  have q: "rat_of_nat n / (1 / 2 ^ j) = of_int (int n * 2 ^ j)"
    by simp
  have r: "rat_of_int (int n * 2 ^ j) * (1 / 2 ^ j) = of_nat n"
    by simp
  have "(of_nat n :: rat) < of_nat (2 ^ 53)"
    using assms by (simp only: of_nat_less_iff)
  also have "\<dots> \<le> pow2 1024" by (simp add: pow2_def)
  finally have lt: "\<not> pow2 1024 \<le> rat_of_nat n" by simp
  have nz: "rat_of_nat n \<noteq> 0" using False by simp
  show ?thesis
    unfolding round64_def Let_def a e m u q round_half_even_int r
    using lt nz by simp
qed

lemma round64_numeral: "numeral k < (2::nat) ^ 53 \<Longrightarrow> round64 (numeral k) = Finite (numeral k)"
  using round64_nat [of "numeral k"] by simp

text \<open>
  \<open>Date.now() / 1000\<close> for a time value: one rounding, of the quotient; none when the
  milliseconds are a whole number of seconds.
\<close>

lemma seconds_time_value: "now < 2 ^ 53 \<Longrightarrow> seconds now = round64 (of_nat now / 1000)"
  by (simp add: seconds_def divide_by_def round64_nat)

lemma seconds_whole: "1000 * s < 2 ^ 53 \<Longrightarrow> seconds (1000 * s) = Finite (of_nat s)"
  by (simp add: seconds_time_value round64_nat)

text \<open>
  Some roundings: \<open>0.1\<close>; a tie, which goes to the even neighbour; a number below half
  of the least double; a number above the greatest one; and a fraction that is too
  fine for the doubles near \<open>1.7e9\<close>, which are \<open>2 ^ -22\<close> apart.
\<close>

lemma round64_tenth: "round64 (1 / 10) = Finite (3602879701896397 / 36028797018963968)"
  by (subst round64_eval [where e = "- 4" and u = "1 / 2 ^ 56" and n = 7205759403792794
        and m = "3602879701896397 / 36028797018963968"])
     (simp_all add: exponent_eval pow2_def rounding_eval)

lemma round64_tie: "round64 9007199254740993 = Finite 9007199254740992"
  by (subst round64_eval [where e = 53 and u = 2 and n = 4503599627370496 and m = 9007199254740992])
     (simp_all add: exponent_eval pow2_def rounding_eval)

lemma round64_underflow: "round64 (1 / 10 ^ 400) = Finite 0"
  by (subst round64_eval [where e = "- 1329" and u = "1 / 2 ^ 1074" and n = 0 and m = 0])
     (simp_all add: exponent_eval pow2_def rounding_eval)

lemma round64_overflow: "round64 (10 ^ 400) = PosInfinity"
  by (subst round64_eval [where e = 1328 and u = "2 ^ 1276" and n = "\<lfloor>10 ^ 400 / 2 ^ 1276 :: rat\<rfloor>"
        and m = "of_int \<lfloor>10 ^ 400 / 2 ^ 1276 :: rat\<rfloor> * 2 ^ 1276"])
     (simp_all add: exponent_eval pow2_def rounding_eval)

lemma round64_fraction: "round64 (17000000000000001 / 10000000) = Finite 1700000000"
  by (subst round64_eval [where e = 30 and u = "1 / 2 ^ 22" and n = "1700000000 * 2 ^ 22" and m = 1700000000])
     (simp_all add: exponent_eval pow2_def rounding_eval)

subsection \<open>The default-address flag\<close>

lemma setDefaultAddress_success:
  assumes "setDefaultAddress gateway addressId w = (Inr r, w')"
  shows "\<exists>aid. addressId = Some aid \<and> aid \<noteq> [] \<and> truthy (auth_token w) \<and> (\<exists>u. put_default gateway aid = Inr (Success u))
     \<and> user_addresses w' = Some (mark_default aid (cache_of w))"
proof (cases addressId)
  case None
  with assms show ?thesis
    by (simp add: setDefaultAddress_def io_defs getToken_def split: if_splits)
next
  case (Some aid)
  with assms show ?thesis
    by (auto simp: setDefaultAddress_def io_defs getToken_def authenticatedRequest_def getCachedAddresses_def
         cacheAddresses_def mark_default_def cache_of_def Let_def
         split: if_splits sum.splits reply.splits option.splits prod.splits)
qed

lemma mark_default_flags: "a \<in> set (mark_default aid as) \<Longrightarrow> isDefault a = (addr_id a = aid)"
  by (auto simp: mark_default_def)

lemma distinct_one_match: "distinct (map f xs) \<Longrightarrow> length (filter (\<lambda>x. f x = k) xs) \<le> 1"
proof (induction xs)
  case Nil
  then show ?case by simp
next
  case (Cons x xs)
  show ?case
  proof (cases "f x = k")
    case True
    from Cons.prems have "f x \<notin> f ` set xs" by simp
    with True have "\<forall>y \<in> set xs. f y \<noteq> k" by blast
    then have "filter (\<lambda>x. f x = k) xs = []" by (simp add: filter_empty_conv)
    with True show ?thesis by simp
  next
    case False
    with Cons show ?thesis by simp
  qed
qed

lemma mark_default_count:
  "length (filter isDefault (mark_default aid as)) = length (filter (\<lambda>a. addr_id a = aid) as)"
  by (simp add: mark_default_def filter_map comp_def)

text \<open>
  Claim C1, as amended. When \<open>setDefaultAddress(id)\<close> resolves, the cache holds the
  collection it held before with \<open>isDefault = (entry.id === id)\<close> set on every entry:
  every cached record is flagged exactly when its id is the requested one, siblings
  included. When the ids of the cached records are pairwise distinct, at most one
  record is flagged.
\<close>

theorem setDefaultAddress_single_default:
  assumes "setDefaultAddress gateway addressId w = (Inr r, w')"
  shows "\<exists>aid. addressId = Some aid
     \<and> user_addresses w' = Some (mark_default aid (cache_of w))
     \<and> (\<forall>a \<in> set (cache_of w'). isDefault a = (addr_id a = aid))
     \<and> (distinct (map addr_id (cache_of w)) \<longrightarrow> length (filter isDefault (cache_of w')) \<le> 1)"
proof -
  from setDefaultAddress_success [OF assms] obtain aid where
    a: "addressId = Some aid" and c: "user_addresses w' = Some (mark_default aid (cache_of w))"
    by blast
  have c': "cache_of w' = mark_default aid (cache_of w)" using c by (simp add: cache_of_def)
  have "\<forall>a \<in> set (cache_of w'). isDefault a = (addr_id a = aid)"
    unfolding c' by (simp add: mark_default_flags)
  moreover have "distinct (map addr_id (cache_of w)) \<longrightarrow> length (filter isDefault (cache_of w')) \<le> 1"
    unfolding c' mark_default_count using distinct_one_match [of addr_id "cache_of w" aid] by simp
  ultimately show ?thesis using a c by simp
qed

text \<open>
  Scenario D: \<open>addr_1\<close> default and \<open>addr_2\<close> not; after
  \<open>setDefaultAddress("addr_2")\<close> the flags are swapped.
\<close>

lemma scenario_D_run:
  "setDefaultAddress accepting_gateway (Some ''addr_2'') (session_world [addr_1, addr_2]) =
     (Inr ''Default address updated successfully'',
      (session_world [addr_1, addr_2])\<lparr>
        user_addresses := Some [addr_1\<lparr>isDefault := False\<rparr>, addr_2\<lparr>isDefault := True\<rparr>],
        trace := [StorageGet TOKEN_KEY, StorageGet TOKEN_KEY, Request ''PUT'' ''/user/addresses/addr_2/default'',
                  StorageGet ADDRESSES_KEY, StorageSet ADDRESSES_KEY]\<rparr>)"
  by (simp add: setDefaultAddress_def io_defs getToken_def authenticatedRequest_def getCachedAddresses_def
       cacheAddresses_def session_world_def addr_1_def addr_2_def Let_def accepting_gateway_def mark_default_def)

theorem setDefaultAddress_single_default_witness:
  "setDefaultAddress accepting_gateway (Some ''addr_2'') (session_world [addr_1, addr_2]) =
     (Inr ''Default address updated successfully'',
      (session_world [addr_1, addr_2])\<lparr>
        user_addresses := Some [addr_1\<lparr>isDefault := False\<rparr>, addr_2\<lparr>isDefault := True\<rparr>],
        trace := [StorageGet TOKEN_KEY, StorageGet TOKEN_KEY, Request ''PUT'' ''/user/addresses/addr_2/default'',
                  StorageGet ADDRESSES_KEY, StorageSet ADDRESSES_KEY]\<rparr>)
   \<and> distinct (map addr_id (cache_of (session_world [addr_1, addr_2])))
   \<and> map isDefault [addr_1\<lparr>isDefault := False\<rparr>, addr_2\<lparr>isDefault := True\<rparr>] = [False, True]
   \<and> length (filter isDefault [addr_1\<lparr>isDefault := False\<rparr>, addr_2\<lparr>isDefault := True\<rparr>]) \<le> 1"
proof -
  have d: "distinct (map addr_id (cache_of (session_world [addr_1, addr_2])))"
    by (simp add: cache_of_def session_world_def addr_1_def addr_2_def)
  let ?w' = "(session_world [addr_1, addr_2])\<lparr>
        user_addresses := Some [addr_1\<lparr>isDefault := False\<rparr>, addr_2\<lparr>isDefault := True\<rparr>],
        trace := [StorageGet TOKEN_KEY, StorageGet TOKEN_KEY, Request ''PUT'' ''/user/addresses/addr_2/default'',
                  StorageGet ADDRESSES_KEY, StorageSet ADDRESSES_KEY]\<rparr>"
  from setDefaultAddress_single_default [OF scenario_D_run] d
  have "length (filter isDefault (cache_of ?w')) \<le> 1"
    by blast
  moreover have "cache_of ?w' = [addr_1\<lparr>isDefault := False\<rparr>, addr_2\<lparr>isDefault := True\<rparr>]"
    by (simp add: cache_of_def)
  ultimately have "length (filter isDefault [addr_1\<lparr>isDefault := False\<rparr>, addr_2\<lparr>isDefault := True\<rparr>]) \<le> 1"
    by simp
  with scenario_D_run d show ?thesis by simp
qed

text \<open>
  The claim as stated fails on a cache in which two records carry the same id: both
  are flagged, so two cached records are default after the call resolves.
\<close>

theorem setDefaultAddress_two_defaults:
  "fst (setDefaultAddress accepting_gateway (Some ''addr_1'')
          (session_world [addr_1, addr_2\<lparr>addr_id := ''addr_1''\<rparr>])) = Inr ''Default address updated successfully''
   \<and> map isDefault (cache_of (snd (setDefaultAddress accepting_gateway (Some ''addr_1'')
          (session_world [addr_1, addr_2\<lparr>addr_id := ''addr_1''\<rparr>])))) = [True, True]"
  by (simp add: setDefaultAddress_def io_defs getToken_def authenticatedRequest_def getCachedAddresses_def
       cacheAddresses_def session_world_def addr_1_def addr_2_def Let_def accepting_gateway_def mark_default_def cache_of_def)

text \<open>
  Such a cache arises from the address writes themselves when the gateway issues an id
  twice (the mock of the source issues \<open>'addr_' + Date.now()\<close>): \<open>addAddress\<close> appends
  the record it is answered with and compares no ids.
\<close>

lemma office_valid:
  "validateAddressData office = Inr \<lparr>fullName = ''John Doe'', addressLine1 = ''456 Office Blvd'',
     addressLine2 = ''Suite 200'', city = ''New York'', state = ''NY'', zipCode = ''10002'',
     country = ''USA'', phone = ''+1234567890'', addressType = ''work'', isDefault = False\<rparr>"
  by (simp add: validateAddressData_def office_def required_fields_def blank_def trim_def or_else_def
       validatePhone_def rx_defs char_defs eval_nat_numeral)

lemma addAddress_success:
  assumes "truthy (auth_token w)" "validateAddressData d = Inr v" "post_address gw v = Inr (Success a)"
  shows "addAddress gw d w = (Inr (''Address added successfully'', a),
     w\<lparr>user_addresses := Some (cache_of w @ [a]),
       trace := trace w @ [StorageGet TOKEN_KEY, StorageGet TOKEN_KEY, Request ''POST'' ''/user/addresses'',
                           StorageGet ADDRESSES_KEY, StorageSet ADDRESSES_KEY, Dispatch (AddressAdded a)]\<rparr>)"
  using assms
  by (simp add: addAddress_def io_defs io_lift_def getToken_def authenticatedRequest_def getCachedAddresses_def
       cacheAddresses_def cache_of_def Let_def split: option.splits)

lemma addAddress_twice:
  assumes "truthy (auth_token w)" "validateAddressData d = Inr v" "post_address gw v = Inr (Success a)"
  shows "cache_of (snd (addAddress gw d (snd (addAddress gw d w)))) = cache_of w @ [a, a]"
proof -
  let ?w1 = "snd (addAddress gw d w)"
  have 1: "?w1 = w\<lparr>user_addresses := Some (cache_of w @ [a]),
       trace := trace w @ [StorageGet TOKEN_KEY, StorageGet TOKEN_KEY, Request ''POST'' ''/user/addresses'',
                           StorageGet ADDRESSES_KEY, StorageSet ADDRESSES_KEY, Dispatch (AddressAdded a)]\<rparr>"
    by (simp add: addAddress_success [OF assms])
  have t: "truthy (auth_token ?w1)" using assms(1) by (simp add: 1)
  have c: "cache_of ?w1 = cache_of w @ [a]" by (simp add: 1 cache_of_def)
  show ?thesis
    by (simp add: addAddress_success [OF t assms(2,3)] c) (simp add: cache_of_def)
qed

lemma duplicate_ids_reachable:
  "map addr_id (cache_of (snd (addAddress accepting_gateway office
       (snd (addAddress accepting_gateway office (session_world [])))))) = [''addr_3'', ''addr_3'']"
proof -
  have t: "truthy (auth_token (session_world []))"
    by (simp add: session_world_def)
  have p: "post_address accepting_gateway v = Inr (Success (with_id ''addr_3'' v))" for v
    by (simp add: accepting_gateway_def)
  show ?thesis
    unfolding addAddress_twice [OF t office_valid p]
    by (simp add: session_world_def cache_of_def with_id_def)
qed

lemma setDefaultAddress_marks:
  assumes "truthy (auth_token w)" "aid \<noteq> []" "put_default gw aid = Inr (Success u)"
  shows "setDefaultAddress gw (Some aid) w = (Inr ''Default address updated successfully'',
     w\<lparr>user_addresses := Some (mark_default aid (cache_of w)),
       trace := trace w @ [StorageGet TOKEN_KEY, StorageGet TOKEN_KEY,
                           Request ''PUT'' (''/user/addresses/'' @ aid @ ''/default''),
                           StorageGet ADDRESSES_KEY, StorageSet ADDRESSES_KEY]\<rparr>)"
  using assms
  by (simp add: setDefaultAddress_def io_defs getToken_def authenticatedRequest_def getCachedAddresses_def
       cacheAddresses_def cache_of_def Let_def split: option.splits)

lemma two_additions_two_defaults:
  "map isDefault (cache_of (snd (setDefaultAddress accepting_gateway (Some ''addr_3'')
       (snd (addAddress accepting_gateway office
       (snd (addAddress accepting_gateway office (session_world [])))))))) = [True, True]"
proof -
  let ?w = "snd (addAddress accepting_gateway office (snd (addAddress accepting_gateway office (session_world []))))"
  have ids: "map addr_id (cache_of ?w) = [''addr_3'', ''addr_3'']"
    by (rule duplicate_ids_reachable)
  have t: "truthy (auth_token ?w)"
    by (simp add: addAddress_success [OF _ office_valid] session_world_def accepting_gateway_def)
  have d: "put_default accepting_gateway ''addr_3'' = Inr (Success ())"
    by (simp add: accepting_gateway_def)
  have "map isDefault (mark_default ''addr_3'' (cache_of ?w)) = map (\<lambda>i. i = ''addr_3'') (map addr_id (cache_of ?w))"
    by (simp add: mark_default_def comp_def)
  then show ?thesis
    unfolding ids by (simp add: setDefaultAddress_marks [OF t _ d] cache_of_def)
qed


subsection \<open>Calls without a token\<close>

lemma guard_denied:
  assumes "\<not> truthy (auth_token w)"
  shows "io_try (io_bind getToken (\<lambda>token.
           if \<not> truthy token then io_throw (Error ''User not authenticated'') else body token))
         (log_and_rethrow label) w = denied label w"
  using assms by (simp add: io_defs getToken_def denied_def)

text \<open>
  Claim C8. Without an access token (none stored, or the empty string), each of the ten
  profile and address operations throws \<open>User not authenticated\<close> at once: the world
  it leaves is the one it found, with the read of the token and the \<open>console.error\<close>
  added to the trace. No cache key is read or written and no request is made.
\<close>

theorem unauthenticated_calls_denied:
  assumes "\<not> truthy (auth_token w)"
  shows "getUserProfile gw w = denied ''Get profile error:'' w
    \<and> updateUserProfile gw profileData w = denied ''Update profile error:'' w
    \<and> updateProfilePicture gw imageFile w = denied ''Update profile picture error:'' w
    \<and> deleteAccount gw api password w = denied ''Delete account error:'' w
    \<and> listAddresses gw w = denied ''List addresses error:'' w
    \<and> getAddress gw addressId w = denied ''Get address error:'' w
    \<and> addAddress gw addressData w = denied ''Add address error:'' w
    \<and> updateAddress gw addressId' addressData w = denied ''Update address error:'' w
    \<and> deleteAddress gw addressId' w = denied ''Delete address error:'' w
    \<and> setDefaultAddress gw addressId' w = denied ''Set default address error:'' w"
  unfolding getUserProfile_def updateUserProfile_def updateProfilePicture_def deleteAccount_def
    listAddresses_def getAddress_def addAddress_def updateAddress_def deleteAddress_def
    setDefaultAddress_def
  by (simp only: guard_denied [OF assms] simp_thms)

theorem unauthenticated_calls_denied_witness:
  "\<not> truthy (auth_token anonymous_world)
   \<and> getUserProfile accepting_gateway anonymous_world = denied ''Get profile error:'' anonymous_world
   \<and> updateUserProfile accepting_gateway new_phone anonymous_world
        = denied ''Update profile error:'' anonymous_world
   \<and> updateProfilePicture accepting_gateway (Some photo) anonymous_world
        = denied ''Update profile picture error:'' anonymous_world
   \<and> deleteAccount accepting_gateway (mockApiCall (\<lambda>i. 0)) (Some ''SecurePass123'') anonymous_world
        = denied ''Delete account error:'' anonymous_world
   \<and> listAddresses accepting_gateway anonymous_world = denied ''List addresses error:'' anonymous_world
   \<and> getAddress accepting_gateway ''addr_1'' anonymous_world = denied ''Get address error:'' anonymous_world
   \<and> addAddress accepting_gateway office anonymous_world = denied ''Add address error:'' anonymous_world
   \<and> updateAddress accepting_gateway (Some ''addr_2'') office anonymous_world
        = denied ''Update address error:'' anonymous_world
   \<and> deleteAddress accepting_gateway (Some ''addr_2'') anonymous_world
        = denied ''Delete address error:'' anonymous_world
   \<and> setDefaultAddress accepting_gateway (Some ''addr_2'') anonymous_world
        = denied ''Set default address error:'' anonymous_world"
proof -
  have h: "\<not> truthy (auth_token anonymous_world)"
    by (simp add: anonymous_world_def)
  from h unauthenticated_calls_denied [OF h, of accepting_gateway new_phone "Some photo"
      "mockApiCall (\<lambda>i. 0)" "Some ''SecurePass123''" "''addr_1''" office "Some ''addr_2''"]
  show ?thesis by simp
qed

subsection \<open>The profile read and its fallback\<close>

lemma getUserProfile_failure_cached:
  assumes "truthy (auth_token w)" "get_profile gw = Inr (Failure m)" "user_data w = Some u"
  shows "getUserProfile gw w = (Inr \<lparr>res_user = u, res_cached = True\<rparr>,
     w\<lparr>trace := trace w @ [StorageGet TOKEN_KEY, StorageGet USER_KEY, StorageGet TOKEN_KEY,
                             Request ''GET'' ''/user/profile'']\<rparr>)"
  using assms
  by (simp add: getUserProfile_def io_defs getToken_def getCurrentUser_def authenticatedRequest_def)

lemma getUserProfile_failure_uncached:
  assumes "truthy (auth_token w)" "get_profile gw = Inr (Failure m)" "user_data w = None"
  shows "getUserProfile gw w = (Inl (Error (or_else m ''Failed to fetch profile'')),
     w\<lparr>trace := trace w @ [StorageGet TOKEN_KEY, StorageGet USER_KEY, StorageGet TOKEN_KEY,
                             Request ''GET'' ''/user/profile'', ConsoleError ''Get profile error:'']\<rparr>)"
  using assms
  by (simp add: getUserProfile_def io_defs getToken_def getCurrentUser_def authenticatedRequest_def)

lemma getUserProfile_success:
  assumes "truthy (auth_token w)" "get_profile gw = Inr (Success fresh)"
  shows "getUserProfile gw w = (Inr \<lparr>res_user = fresh, res_cached = False\<rparr>,
     w\<lparr>user_data := Some fresh,
       trace := trace w @ [StorageGet TOKEN_KEY, StorageGet USER_KEY, StorageGet TOKEN_KEY,
                             Request ''GET'' ''/user/profile'', StorageSet USER_KEY]\<rparr>)"
  using assms
  by (simp add: getUserProfile_def io_defs getToken_def getCurrentUser_def authenticatedRequest_def
       setUserData_def)

lemma getUserProfile_gateway_throws:
  assumes "truthy (auth_token w)" "get_profile gw = Inl e"
  shows "getUserProfile gw w = (Inl e,
     w\<lparr>trace := trace w @ [StorageGet TOKEN_KEY, StorageGet USER_KEY, StorageGet TOKEN_KEY,
                             Request ''GET'' ''/user/profile'', ConsoleError ''Get profile error:'']\<rparr>)"
  using assms
  by (simp add: getUserProfile_def io_defs getToken_def getCurrentUser_def authenticatedRequest_def)

text \<open>
  Claim C4 fails on the code. The fallback is written after the request, under the
  comment \<open>If API fails, return cached data\<close>, and is reached only when the gateway
  answers \<open>success: false\<close>. When the gateway is unreachable the request throws, the
  fallback is skipped, and the \<open>catch\<close> block logs the error and throws it again:
  with a token present and a user cached, \<open>getProfile()\<close> throws what the request
  threw, and the cache is not consulted for the result.
\<close>

theorem getUserProfile_unreachable_throws:
  assumes "truthy (auth_token w)" and "get_profile gw = Inl e" and "user_data w = Some u"
  shows "getUserProfile gw w = (Inl e,
     w\<lparr>trace := trace w @ [StorageGet TOKEN_KEY, StorageGet USER_KEY, StorageGet TOKEN_KEY,
                             Request ''GET'' ''/user/profile'', ConsoleError ''Get profile error:'']\<rparr>)"
  using assms(1,2) by (rule getUserProfile_gateway_throws)

text \<open>Scenario E: the gateway is unreachable and \<open>john\<close> is cached.\<close>

theorem getUserProfile_unreachable_throws_witness:
  "truthy (auth_token profile_world)
   \<and> get_profile (accepting_gateway\<lparr>get_profile := Inl (Error ''Failed to fetch'')\<rparr>)
        = Inl (Error ''Failed to fetch'')
   \<and> user_data profile_world = Some john
   \<and> fst (getUserProfile (accepting_gateway\<lparr>get_profile := Inl (Error ''Failed to fetch'')\<rparr>) profile_world)
        = Inl (Error ''Failed to fetch'')"
proof -
  have t: "truthy (auth_token profile_world)"
    and u: "user_data profile_world = Some john"
    by (simp_all add: profile_world_def anonymous_world_def)
  have g: "get_profile (accepting_gateway\<lparr>get_profile := Inl (Error ''Failed to fetch'')\<rparr>)
             = Inl (Error ''Failed to fetch'')"
    by simp
  from getUserProfile_unreachable_throws [OF t g u] t g u show ?thesis by simp
qed

text \<open>
  The rest of the claim holds. With a token present and a gateway that answers: on
  \<open>success: true\<close> the fresh user is returned and written to \<open>user_data\<close>; on
  \<open>success: false\<close> the cached user, when there is one, is returned with
  \<open>cached: true\<close> and stays cached, and an error is thrown only when nothing is cached.
\<close>

lemma getUserProfile_answered:
  assumes "truthy (auth_token w)" and "get_profile gw = Inr response"
  shows "case response of
      Success fresh \<Rightarrow>
        fst (getUserProfile gw w) = Inr \<lparr>res_user = fresh, res_cached = False\<rparr>
        \<and> user_data (snd (getUserProfile gw w)) = Some fresh
    | Failure message \<Rightarrow>
        (case user_data w of
           Some u \<Rightarrow>
             fst (getUserProfile gw w) = Inr \<lparr>res_user = u, res_cached = True\<rparr>
             \<and> user_data (snd (getUserProfile gw w)) = Some u
         | None \<Rightarrow>
             fst (getUserProfile gw w) = Inl (Error (or_else message ''Failed to fetch profile''))
             \<and> user_data (snd (getUserProfile gw w)) = None)"
proof (cases response)
  case (Success fresh)
  with assms show ?thesis by (simp add: getUserProfile_success)
next
  case (Failure message)
  show ?thesis
  proof (cases "user_data w")
    case None
    with assms Failure show ?thesis by (simp add: getUserProfile_failure_uncached)
  next
    case (Some u)
    with assms Failure show ?thesis by (simp add: getUserProfile_failure_cached)
  qed
qed

lemma getUserProfile_answered_example:
  "fst (getUserProfile (accepting_gateway\<lparr>get_profile := Inr (Failure None)\<rparr>) profile_world)
        = Inr \<lparr>res_user = john, res_cached = True\<rparr>"
  by (simp add: getUserProfile_failure_cached [where m = None] profile_world_def anonymous_world_def)

subsection \<open>Logout\<close>

lemmas logout_defs = logoutUser_def io_defs getToken_def clearAuthData_def removePendingRegistration_def
  handleLogout_def clearUserData_def clearCachedAddresses_def

lemma logoutUser_logged_out:
  assumes "logged_out w"
  shows "logoutUser api w = (Inr ''Logged out successfully'',
     w\<lparr>user_addresses := (if auth_state_manager w \<and> user_service w then None else user_addresses w),
       trace := trace w @ logout_effects w\<rparr>)"
  using assms by (simp add: logout_defs logged_out_def logout_effects_def)

lemma logoutUser_settled:
  assumes "settled w"
  shows "logoutUser api w = (Inr ''Logged out successfully'', w\<lparr>trace := trace w @ logout_effects w\<rparr>)"
proof -
  from assms have l: "logged_out w"
    and a: "(if auth_state_manager w \<and> user_service w then None else user_addresses w) = user_addresses w"
    by (simp_all add: settled_def)
  show ?thesis unfolding logoutUser_logged_out [OF l] a by simp
qed

lemma logoutUser_ends_logged_out: "logged_out (snd (logoutUser api w))"
  by (auto simp: logout_defs logged_out_def apiCall_def split: sum.splits prod.splits)

lemma logoutUser_returns_settled:
  assumes "fst (logoutUser api w) = Inr r"
  shows "settled (snd (logoutUser api w))"
  using assms
  by (auto simp: logout_defs settled_def logged_out_def apiCall_def split: sum.splits prod.splits if_splits)

text \<open>
  Claim C9, as amended. Whatever the state and whatever the gateway does, \<open>logout()\<close>
  leaves no token, refresh token, user or pending registration stored; when it
  returns, the cached addresses are gone as well wherever \<open>handleLogout\<close> is listening.
  Called in such a state it makes no request, does not throw, returns its success
  message and changes nothing that is stored: the world it leaves differs only by the
  trace of the call.
\<close>

theorem logoutUser_idempotent:
  "logged_out (snd (logoutUser api w0))
   \<and> (fst (logoutUser api w0) = Inr r \<longrightarrow> settled (snd (logoutUser api w0)))
   \<and> (settled w \<longrightarrow>
        logoutUser api w = (Inr ''Logged out successfully'', w\<lparr>trace := trace w @ logout_effects w\<rparr>))"
  by (simp add: logoutUser_ends_logged_out logoutUser_returns_settled logoutUser_settled)

text \<open>
  A page with the \<open>AuthStateManager\<close> on which nothing is stored; and a second logout
  after the logout of a session with a cached user and cached addresses.
\<close>

theorem logoutUser_idempotent_witness:
  "settled anonymous_world
   \<and> logoutUser (mockApiCall (\<lambda>i. 0)) anonymous_world = (Inr ''Logged out successfully'',
        anonymous_world\<lparr>trace := [StorageGet TOKEN_KEY, StorageRemove TOKEN_KEY,
           StorageRemove REFRESH_TOKEN_KEY, StorageRemove USER_KEY, StorageRemove PENDING_KEY,
           Dispatch UserLoggedOut, StorageRemove ADDRESSES_KEY]\<rparr>)
   \<and> fst (logoutUser (mockApiCall (\<lambda>i. 0)) (session_world [addr_1, addr_2])) = Inr ''Logged out successfully''
   \<and> settled (snd (logoutUser (mockApiCall (\<lambda>i. 0)) (session_world [addr_1, addr_2])))
   \<and> user_addresses (snd (logoutUser (mockApiCall (\<lambda>i. 0)) (session_world [addr_1, addr_2]))) = None"
proof -
  let ?api = "mockApiCall (\<lambda>i. 0)"
  have h: "settled anonymous_world"
    by (simp add: settled_def logged_out_def anonymous_world_def)
  have e: "trace anonymous_world @ logout_effects anonymous_world =
      [StorageGet TOKEN_KEY, StorageRemove TOKEN_KEY, StorageRemove REFRESH_TOKEN_KEY,
       StorageRemove USER_KEY, StorageRemove PENDING_KEY, Dispatch UserLoggedOut, StorageRemove ADDRESSES_KEY]"
    by (simp add: logout_effects_def anonymous_world_def)
  have r: "fst (logoutUser ?api (session_world [addr_1, addr_2])) = Inr ''Logged out successfully''"
    and a: "user_addresses (snd (logoutUser ?api (session_world [addr_1, addr_2]))) = None"
    by (simp_all add: logout_defs apiCall_def mockApiCall_def session_world_def)
  from logoutUser_idempotent [of ?api anonymous_world "''Logged out successfully''" anonymous_world] h e
  have 1: "logoutUser ?api anonymous_world = (Inr ''Logged out successfully'',
        anonymous_world\<lparr>trace := [StorageGet TOKEN_KEY, StorageRemove TOKEN_KEY,
           StorageRemove REFRESH_TOKEN_KEY, StorageRemove USER_KEY, StorageRemove PENDING_KEY,
           Dispatch UserLoggedOut, StorageRemove ADDRESSES_KEY]\<rparr>)"
    by simp
  from logoutUser_idempotent [of ?api "session_world [addr_1, addr_2]" "''Logged out successfully''" anonymous_world] r
  have 2: "settled (snd (logoutUser ?api (session_world [addr_1, addr_2])))"
    by blast
  from h 1 2 r a show ?thesis by blast
qed

text \<open>
  The claim as stated fails in a state with no tokens and no user in which a
  registration is pending: \<open>logout()\<close> removes the pending-registration marker.
\<close>

theorem logoutUser_clears_pending:
  "auth_token (anonymous_world\<lparr>pending_registration := Some \<lparr>p_email = ''user@example.com'', p_userId = ''user_1''\<rparr>\<rparr>) = None
   \<and> refresh_token (anonymous_world\<lparr>pending_registration := Some \<lparr>p_email = ''user@example.com'', p_userId = ''user_1''\<rparr>\<rparr>) = None
   \<and> user_data (anonymous_world\<lparr>pending_registration := Some \<lparr>p_email = ''user@example.com'', p_userId = ''user_1''\<rparr>\<rparr>) = None
   \<and> fst (logoutUser (mockApiCall (\<lambda>i. 0))
        (anonymous_world\<lparr>pending_registration := Some \<lparr>p_email = ''user@example.com'', p_userId = ''user_1''\<rparr>\<rparr>))
       = Inr ''Logged out successfully''
   \<and> pending_registration (snd (logoutUser (mockApiCall (\<lambda>i. 0))
        (anonymous_world\<lparr>pending_registration := Some \<lparr>p_email = ''user@example.com'', p_userId = ''user_1''\<rparr>\<rparr>)))
       = None"
  by (simp add: logout_defs anonymous_world_def)

text \<open>
  It fails as well, in a state with no tokens, no user and no pending registration,
  on the cached addresses: the \<open>userLoggedOut\<close> event runs \<open>handleLogout\<close>, which
  removes them. Only a page without the \<open>AuthStateManager\<close> keeps them.
\<close>

lemma logoutUser_clears_addresses:
  assumes "logged_out w" and "auth_state_manager w" and "user_service w"
  shows "user_addresses (snd (logoutUser api w)) = None"
  using assms(2,3) by (simp add: logoutUser_logged_out [OF assms(1)])

lemma logoutUser_clears_addresses_example:
  "logged_out (anonymous_world\<lparr>user_addresses := Some [addr_1]\<rparr>)
   \<and> user_addresses (snd (logoutUser api (anonymous_world\<lparr>user_addresses := Some [addr_1]\<rparr>))) = None
   \<and> user_addresses (snd (logoutUser api
        (anonymous_world\<lparr>user_addresses := Some [addr_1], auth_state_manager := False\<rparr>))) = Some [addr_1]"
proof -
  have l: "logged_out (anonymous_world\<lparr>user_addresses := Some [addr_1]\<rparr>)"
    and l': "logged_out (anonymous_world\<lparr>user_addresses := Some [addr_1], auth_state_manager := False\<rparr>)"
    by (simp_all add: logged_out_def anonymous_world_def)
  show ?thesis
    unfolding logoutUser_logged_out [OF l] logoutUser_logged_out [OF l']
    using l by (simp add: anonymous_world_def)
qed

text \<open>
  When the gateway throws on the logout request, the \<open>catch\<close> block clears the session
  and throws again; no event is dispatched, so the cached addresses stay.
\<close>

lemma logoutUser_gateway_throws:
  assumes "auth_token w = Some token" and "token \<noteq> []" and "post_logout api token = Inl e"
  shows "logoutUser api w = (Inl e,
     w\<lparr>auth_token := None, refresh_token := None, user_data := None, pending_registration := None,
       trace := trace w @ [StorageGet TOKEN_KEY, Request ''POST'' ''/auth/logout'', ConsoleError ''Logout error:'',
         StorageRemove TOKEN_KEY, StorageRemove REFRESH_TOKEN_KEY, StorageRemove USER_KEY,
         StorageRemove PENDING_KEY]\<rparr>)"
  using assms by (simp add: logout_defs apiCall_def)

subsection \<open>Matching by derivatives decides the pattern's language\<close>

lemma nullable_lang: "nullable r = ([] \<in> lang r)"
  by (induction r) (auto intro: star_empty)

lemma star_cons:
  assumes "w \<in> star A" and "w = c # s"
  shows "\<exists>u v. s = u @ v \<and> c # u \<in> A \<and> v \<in> star A"
  using assms
proof (induction arbitrary: s rule: star.induct)
  case star_empty
  then show ?case by simp
next
  case (star_more u v)
  show ?case
  proof (cases u)
    case Nil
    with star_more show ?thesis by simp
  next
    case (Cons a u')
    with star_more.prems have "a = c" and "s = u' @ v" by simp_all
    with Cons star_more.hyps show ?thesis by blast
  qed
qed

lemma deriv_lang: "(s \<in> lang (deriv c r)) = (c # s \<in> lang r)"
proof (induction r arbitrary: s)
  case (Cat r1 r2)
  have "(c # s \<in> lang (Cat r1 r2)) =
        (([] \<in> lang r1 \<and> c # s \<in> lang r2) \<or> (\<exists>u v. s = u @ v \<and> c # u \<in> lang r1 \<and> v \<in> lang r2))"
    by (auto simp: Cons_eq_append_conv)
  with Cat show ?case by (auto simp: nullable_lang)
next
  case (Rep r)
  have "(c # s \<in> star (lang r)) = (\<exists>u v. s = u @ v \<and> c # u \<in> lang r \<and> v \<in> star (lang r))"
  proof
    assume "c # s \<in> star (lang r)"
    then show "\<exists>u v. s = u @ v \<and> c # u \<in> lang r \<and> v \<in> star (lang r)"
      by (rule star_cons) simp
  next
    assume "\<exists>u v. s = u @ v \<and> c # u \<in> lang r \<and> v \<in> star (lang r)"
    then obtain u v where "s = u @ v" "c # u \<in> lang r" "v \<in> star (lang r)" by blast
    then show "c # s \<in> star (lang r)" using star_more [of "c # u" "lang r" v] by simp
  qed
  with Rep show ?case by auto
qed auto

lemma rx_test_lang: "rx_test r s = (s \<in> lang r)"
  by (induction s arbitrary: r) (simp_all add: nullable_lang deriv_lang)

lemma lang_times_length: "s \<in> lang (rx_times n (Sym p)) \<Longrightarrow> length s = n"
  by (induction n arbitrary: s) auto

lemma lang_atleast_length:
  assumes "s \<in> lang (rx_atleast n (Sym p))"
  shows "n \<le> length s"
proof -
  from assms obtain u v where "s = u @ v" and "u \<in> lang (rx_times n (Sym p))"
    by (auto simp: rx_atleast_def)
  then show ?thesis by (simp add: lang_times_length)
qed

lemma lang_ahead_class:
  assumes "s \<in> lang (rx_ahead (Cat r (Sym p)) t)"
  shows "list_ex p s \<and> s \<in> lang t"
proof -
  from assms obtain u c v where "s = (u @ [c]) @ v" and "p c" and "s \<in> lang t"
    by (auto simp: rx_ahead_def)
  then show ?thesis by (auto simp: list_ex_iff)
qed

subsection \<open>The password and e-mail patterns\<close>

text \<open>A password the pattern accepts satisfies the rule of the specification.\<close>

lemma validatePassword_rule: "validatePassword p \<Longrightarrow> password_rule p"
  unfolding validatePassword_def rx_test_lang passwordRegex_def password_rule_def
  by (blast dest: lang_ahead_class lang_atleast_length)

lemma star_class: "(s \<in> star {[c] | c. p c}) = list_all p s"
proof
  assume "s \<in> star {[c] | c. p c}"
  then show "list_all p s" by (induction rule: star.induct) auto
next
  assume "list_all p s"
  then show "s \<in> star {[c] | c. p c}"
  proof (induction s)
    case Nil
    show ?case by (rule star_empty)
  next
    case (Cons c s)
    then have "[c] \<in> {[c] | c. p c}" and "s \<in> star {[c] | c. p c}" by simp_all
    then have "[c] @ s \<in> star {[c] | c. p c}" by (rule star_more)
    then show ?case by simp
  qed
qed

lemma lang_plus_class: "(s \<in> lang (rx_plus (Sym p))) = (s \<noteq> [] \<and> list_all p s)"
proof (cases s)
  case Nil
  then show ?thesis by (simp add: rx_plus_def)
next
  case (Cons c v)
  have "(c # v \<in> lang (rx_plus (Sym p))) = (p c \<and> list_all p v)"
  proof
    assume "c # v \<in> lang (rx_plus (Sym p))"
    then show "p c \<and> list_all p v" by (auto simp: rx_plus_def star_class)
  next
    assume "p c \<and> list_all p v"
    then have "[c] \<in> lang (Sym p)" and "v \<in> lang (Rep (Sym p))" by (simp_all add: star_class)
    then have "[c] @ v \<in> lang (Cat (Sym p) (Rep (Sym p)))" unfolding lang.simps(5) by blast
    then show "c # v \<in> lang (rx_plus (Sym p))" by (simp add: rx_plus_def)
  qed
  with Cons show ?thesis by simp
qed

text \<open>
  The e-mail pattern accepts exactly \<open>local@domain.tld\<close> with three non-empty parts
  free of white space and \<open>@\<close>.
\<close>

lemma validateEmail_shape:
  "validateEmail email =
     (\<exists>a b c. email = a @ ''@'' @ b @ ''.'' @ c \<and> a \<noteq> [] \<and> b \<noteq> [] \<and> c \<noteq> []
        \<and> list_all not_space_at a \<and> list_all not_space_at b \<and> list_all not_space_at c)"
  unfolding validateEmail_def rx_test_lang emailRegex_def rx_seq_def
  by (simp add: lang_plus_class rx_chr_def) blast

lemma validateEmail_needs_at: "validateEmail email \<Longrightarrow> CHR ''@'' \<in> set email"
  by (auto simp: validateEmail_shape)

lemma example_email_valid: "validateEmail ''user@example.com''"
  by (simp add: rx_defs char_defs)

subsection \<open>Registration\<close>

lemma registerUser_rejects:
  assumes "\<not> truthy (reg_email d) \<or> \<not> truthy (reg_password d) \<or> \<not> truthy (reg_firstName d)
     \<or> \<not> truthy (reg_lastName d) \<or> \<not> validateEmail (the (reg_email d))
     \<or> \<not> validatePassword (the (reg_password d))"
  shows "\<exists>m. registerUser api d w =
            (Inl (Error m), w\<lparr>trace := trace w @ [ConsoleError ''Registration error:'']\<rparr>)
     \<and> m \<in> set validation_messages"
  using assms by (auto simp: registerUser_def io_defs validation_messages_def)

text \<open>
  Claim C6. A registration with a missing or empty required field, an e-mail the
  address pattern rejects, or a password that breaks the rule of the specification
  throws one of the three validation errors. The world it leaves is the one it found
  with the \<open>console.error\<close> added to the trace: no request was made and no
  pending-registration marker was written.
\<close>

theorem registerUser_validation:
  assumes "\<not> truthy (reg_email d) \<or> \<not> truthy (reg_password d) \<or> \<not> truthy (reg_firstName d)
     \<or> \<not> truthy (reg_lastName d) \<or> \<not> validateEmail (the (reg_email d))
     \<or> \<not> password_rule (the (reg_password d))"
  shows "\<exists>m. registerUser api d w =
            (Inl (Error m), w\<lparr>trace := trace w @ [ConsoleError ''Registration error:'']\<rparr>)
     \<and> m \<in> set validation_messages"
proof (rule registerUser_rejects)
  from assms validatePassword_rule [of "the (reg_password d)"]
  show "\<not> truthy (reg_email d) \<or> \<not> truthy (reg_password d) \<or> \<not> truthy (reg_firstName d)
     \<or> \<not> truthy (reg_lastName d) \<or> \<not> validateEmail (the (reg_email d))
     \<or> \<not> validatePassword (the (reg_password d))"
    by blast
qed

text \<open>Scenario B: \<open>bad-email\<close> and \<open>weak\<close>.\<close>

theorem registerUser_validation_witness:
  "\<not> validateEmail (the (reg_email scenario_B))
   \<and> \<not> password_rule (the (reg_password scenario_B))
   \<and> (\<exists>m. registerUser (mockApiCall (\<lambda>i. 0)) scenario_B anonymous_world =
            (Inl (Error m), anonymous_world\<lparr>trace := [ConsoleError ''Registration error:'']\<rparr>)
        \<and> m \<in> set validation_messages)"
proof -
  have e: "\<not> validateEmail (the (reg_email scenario_B))"
    using validateEmail_needs_at [of "''bad-email''"] by (auto simp: scenario_B_def)
  have p: "\<not> password_rule (the (reg_password scenario_B))"
    by (simp add: scenario_B_def password_rule_def)
  have "trace anonymous_world = []" by (simp add: anonymous_world_def)
  with registerUser_validation [of scenario_B "mockApiCall (\<lambda>i. 0)" anonymous_world] e p
  show ?thesis by simp
qed

lemma scenario_B_message:
  "fst (registerUser api scenario_B w) = Inl (Error ''Invalid email format'')"
  using validateEmail_needs_at [of "''bad-email''"]
  by (auto simp: registerUser_def io_defs scenario_B_def)

subsection \<open>Tokens that do not decode\<close>

lemma split_on_nonempty: "split_on sep s \<noteq> []"
  by (induction s) (auto split: list.splits)

lemma split_on_no_sep: "sep \<notin> set s \<Longrightarrow> split_on sep s = [s]"
  by (induction s) auto

lemma parseJwt_no_dot: "CHR ''.'' \<notin> set token \<Longrightarrow> parseJwt token = Inl TypeError"
  by (simp add: parseJwt_def split_on_no_sep index_def)

lemma parseJwt_empty: "parseJwt [] = Inl TypeError"
  by (simp add: parseJwt_no_dot)

lemma sample_jwt_payload:
  "parseJwt sample_jwt =
     Inr (JObj [(units ''sub'', JStr (units ''user_123'')), (units ''exp'', JNum (Finite 1700000000))])"
  by (simp add: sample_jwt_def runtime_defs char_defs round64_numeral)

lemma sample_jwt_expiry: "decodeExpiry sample_jwt = Inr (Finite 1700000000)"
  by (simp add: decodeExpiry_def sample_jwt_payload)
     (simp add: sum_bind_def get_property_def to_number_def units_def char_code_def)

lemma two_segments_expiry: "decodeExpiry two_segments = Inr (Finite 9999999999)"
  by (simp add: decodeExpiry_def two_segments_def runtime_defs char_defs round64_numeral)

text \<open>
  Expiries that are not doubles as written: \<open>1700000000.0000001\<close> is read as
  \<open>1700000000\<close>, \<open>1e-400\<close> as \<open>0\<close> and \<open>1e400\<close> as \<open>Infinity\<close>.
\<close>

lemma fractional_expiry_rounds: "decodeExpiry fractional_expiry = Inr (Finite 1700000000)"
  by (simp add: decodeExpiry_def fractional_expiry_def runtime_defs char_defs round64_fraction)

lemma tiny_expiry_rounds: "decodeExpiry tiny_expiry = Inr (Finite 0)"
  by (simp add: decodeExpiry_def tiny_expiry_def runtime_defs char_defs round64_underflow [simplified])

lemma huge_expiry_rounds: "decodeExpiry huge_expiry = Inr PosInfinity"
  by (simp add: decodeExpiry_def huge_expiry_def runtime_defs char_defs round64_overflow [simplified])

subsection \<open>isAuthenticated\<close>

lemma isAuthenticated_world:
  "snd (isAuthenticated now w) = w\<lparr>trace := trace w @ [StorageGet TOKEN_KEY]\<rparr>"
  by (auto simp: isAuthenticated_def io_defs io_lift_def getToken_def Let_def
      split: sum.splits option.splits prod.splits)

lemma isAuthenticated_value:
  "fst (isAuthenticated now w) =
     Inr (case auth_token w of
            None \<Rightarrow> False
          | Some token \<Rightarrow>
              (case decodeExpiry token of
                 Inl e \<Rightarrow> False
               | Inr n \<Rightarrow> greater_than n (seconds now)))"
proof (cases "auth_token w")
  case None
  then show ?thesis by (simp add: isAuthenticated_def io_defs getToken_def)
next
  case (Some token)
  show ?thesis
  proof (cases "token = []")
    case True
    with Some show ?thesis
      by (simp add: isAuthenticated_def io_defs getToken_def decodeExpiry_def parseJwt_empty sum_bind_def)
  next
    case False
    with Some show ?thesis
      by (auto simp: isAuthenticated_def io_defs io_lift_def getToken_def decodeExpiry_def sum_bind_def Let_def
          split: sum.splits option.splits)
  qed
qed

lemma greater_than_finite [simp]: "greater_than (Finite x) (Finite y) = (x > y)"
  by (simp add: greater_than_def)

text \<open>
  Claim C3. \<open>isAuthenticated()\<close> returns true exactly when a token is stored, its
  expiry decodes, and the expiry is greater than the current time in seconds, both as
  the doubles the code compares: the expiry as \<open>JSON.parse\<close> reads it and the time as
  \<open>Date.now() / 1000\<close>. In particular it returns false when the decoded expiry is at
  most the current time. The call stores nothing, and its result is a function of the
  stored token and the clock alone.
\<close>

theorem isAuthenticated_iff:
  "fst (isAuthenticated now w) =
     Inr (\<exists>token n. auth_token w = Some token \<and> decodeExpiry token = Inr n
            \<and> greater_than n (seconds now))
   \<and> snd (isAuthenticated now w) = w\<lparr>trace := trace w @ [StorageGet TOKEN_KEY]\<rparr>
   \<and> (auth_token w = Some token \<and> decodeExpiry token = Inr (Finite expiry)
        \<and> seconds now = Finite t \<and> expiry \<le> t
        \<longrightarrow> fst (isAuthenticated now w) = Inr False)
   \<and> (auth_token w = auth_token w' \<longrightarrow> fst (isAuthenticated now w) = fst (isAuthenticated now w'))"
  by (auto simp: isAuthenticated_value isAuthenticated_world split: option.splits sum.splits)

text \<open>
  A token that expires at \<open>1700000000\<close>: authenticated one second before, not at the
  second itself.
\<close>

theorem isAuthenticated_iff_witness:
  "auth_token (anonymous_world\<lparr>auth_token := Some sample_jwt\<rparr>) = Some sample_jwt
   \<and> decodeExpiry sample_jwt = Inr (Finite 1700000000)
   \<and> seconds 1700000000000 = Finite 1700000000
   \<and> seconds 1699999999000 = Finite 1699999999
   \<and> fst (isAuthenticated 1700000000000 (anonymous_world\<lparr>auth_token := Some sample_jwt\<rparr>)) = Inr False
   \<and> fst (isAuthenticated 1699999999000 (anonymous_world\<lparr>auth_token := Some sample_jwt\<rparr>)) = Inr True"
proof -
  let ?w = "anonymous_world\<lparr>auth_token := Some sample_jwt\<rparr>"
  have a: "auth_token ?w = Some sample_jwt" by simp
  have s: "seconds 1700000000000 = Finite 1700000000"
    using seconds_whole [of 1700000000] by simp
  have s': "seconds 1699999999000 = Finite 1699999999"
    using seconds_whole [of 1699999999] by simp
  from isAuthenticated_iff [of 1700000000000 ?w sample_jwt 1700000000 1700000000 ?w] a s sample_jwt_expiry
  have f: "fst (isAuthenticated 1700000000000 ?w) = Inr False" by simp
  have "\<exists>token n. auth_token ?w = Some token \<and> decodeExpiry token = Inr n
            \<and> greater_than n (seconds 1699999999000)"
    using sample_jwt_expiry by (simp add: s')
  with isAuthenticated_iff [of 1699999999000 ?w sample_jwt 1700000000 1699999999 ?w]
  have t: "fst (isAuthenticated 1699999999000 ?w) = Inr True" by simp
  from a s s' f t sample_jwt_expiry show ?thesis by simp
qed

text \<open>
  The comparison is one of doubles. An expiry written as \<open>1700000000.0000001\<close> is not
  after the second \<open>1700000000\<close>, and one written as \<open>1e-400\<close> is not after the epoch;
  one written as \<open>1e400\<close> is after every time.
\<close>

lemma isAuthenticated_fractional_expiry:
  "fst (isAuthenticated 1700000000000 (anonymous_world\<lparr>auth_token := Some fractional_expiry\<rparr>)) = Inr False"
  using seconds_whole [of 1700000000]
  by (simp add: isAuthenticated_value fractional_expiry_rounds)

lemma isAuthenticated_tiny_expiry:
  "fst (isAuthenticated 0 (anonymous_world\<lparr>auth_token := Some tiny_expiry\<rparr>)) = Inr False"
  using seconds_whole [of 0]
  by (simp add: isAuthenticated_value tiny_expiry_rounds)

lemma isAuthenticated_huge_expiry:
  "fst (isAuthenticated 1700000000000 (anonymous_world\<lparr>auth_token := Some huge_expiry\<rparr>)) = Inr True"
  using seconds_whole [of 1700000000]
  by (simp add: isAuthenticated_value huge_expiry_rounds greater_than_def)

text \<open>
  Claim C10, as amended. \<open>isAuthenticated()\<close> always returns a boolean and never
  throws. Whenever \<open>parseJwt\<close> throws on the stored token it returns false; a string
  without a dot, which has no second segment, is such a token.
\<close>

theorem isAuthenticated_total:
  "(\<exists>b. isAuthenticated now w = (Inr b, w\<lparr>trace := trace w @ [StorageGet TOKEN_KEY]\<rparr>))
   \<and> (auth_token w = Some token \<and> parseJwt token = Inl e \<longrightarrow> fst (isAuthenticated now w) = Inr False)
   \<and> (CHR ''.'' \<notin> set token \<longrightarrow> parseJwt token = Inl TypeError)"
proof -
  have "\<exists>b. fst (isAuthenticated now w) = Inr b" by (simp add: isAuthenticated_value)
  then have "\<exists>b. isAuthenticated now w = (Inr b, w\<lparr>trace := trace w @ [StorageGet TOKEN_KEY]\<rparr>)"
    using isAuthenticated_world [of now w] by (metis prod.collapse)
  moreover have "auth_token w = Some token \<and> parseJwt token = Inl e \<longrightarrow> fst (isAuthenticated now w) = Inr False"
    by (simp add: isAuthenticated_value decodeExpiry_def sum_bind_def)
  ultimately show ?thesis by (simp add: parseJwt_no_dot)
qed

theorem isAuthenticated_total_witness:
  "auth_token (anonymous_world\<lparr>auth_token := Some ''mock_jwt_token_1700000000000''\<rparr>)
     = Some ''mock_jwt_token_1700000000000''
   \<and> CHR ''.'' \<notin> set ''mock_jwt_token_1700000000000''
   \<and> parseJwt ''mock_jwt_token_1700000000000'' = Inl TypeError
   \<and> fst (isAuthenticated 1700000000000
        (anonymous_world\<lparr>auth_token := Some ''mock_jwt_token_1700000000000''\<rparr>)) = Inr False"
proof -
  let ?t = "''mock_jwt_token_1700000000000''"
  let ?w = "anonymous_world\<lparr>auth_token := Some ?t\<rparr>"
  have a: "auth_token ?w = Some ?t" by simp
  have d: "CHR ''.'' \<notin> set ?t" by simp
  from isAuthenticated_total [of 1700000000000 ?w ?t TypeError] a d
  have "parseJwt ?t = Inl TypeError" and "fst (isAuthenticated 1700000000000 ?w) = Inr False"
    by blast+
  with a d show ?thesis by blast
qed

text \<open>
  The claim as stated fails on a string that is not a three-segment token but whose
  second segment decodes: with an expiry in the future it is accepted.
\<close>

theorem two_segments_authenticated:
  "split_on CHR ''.'' two_segments = [''x'', ''eyJleHAiOjk5OTk5OTk5OTl9'']
   \<and> fst (isAuthenticated 1700000000000 (anonymous_world\<lparr>auth_token := Some two_segments\<rparr>)) = Inr True"
  using seconds_whole [of 1700000000]
  by (simp add: isAuthenticated_value two_segments_expiry) (simp add: two_segments_def)

subsection \<open>Login\<close>

lemma decimal_digits: "set (decimal n) \<subseteq> set ''0123456789''"
proof (induction n rule: decimal.induct)
  case (1 n)
  have d: "\<And>k. k < 10 \<Longrightarrow> ''0123456789'' ! k \<in> set ''0123456789''"
    by (rule nth_mem) simp
  show ?case
  proof (cases "n < 10")
    case True
    then show ?thesis using d [of n] by (subst decimal.simps) simp
  next
    case False
    have "n mod 10 < 10" by simp
    with False 1 d [of "n mod 10"] show ?thesis by (subst decimal.simps) simp
  qed
qed

lemma decimal_no_dot: "CHR ''.'' \<notin> set (decimal n)"
  using decimal_digits [of n] by auto

lemma mock_token_undecodable: "parseJwt (''mock_jwt_token_'' @ decimal n) = Inl TypeError"
  by (rule parseJwt_no_dot) (simp add: decimal_no_dot)

lemma login_with_mock:
  "loginUser (mockApiCall clock) (Some ''user@example.com'') (Some ''SecurePass123'') anonymous_world =
     (Inr john,
      anonymous_world\<lparr>
        auth_token := Some (''mock_jwt_token_'' @ decimal (clock 4)),
        refresh_token := Some (''mock_refresh_token_'' @ decimal (clock 5)),
        user_data := Some john,
        trace := [Request ''POST'' ''/auth/login'', StorageSet TOKEN_KEY, StorageSet REFRESH_TOKEN_KEY,
                  StorageSet USER_KEY, Dispatch (UserLoggedIn john)]\<rparr>)"
  by (simp add: loginUser_def io_defs apiCall_def mockApiCall_def setTokens_def setUserData_def
       example_email_valid anonymous_world_def john_def)

text \<open>
  Claim C2 fails on the code. The first \<open>login("user@example.com", "SecurePass123")\<close>
  from the anonymous state succeeds and stores the mock's token
  \<open>mock_jwt_token_<Date.now()>\<close>; the token has no second segment, so \<open>isAuthenticated()\<close>
  returns false right after, whatever the clock says.
\<close>

theorem login_with_mock_not_authenticated:
  "fst (loginUser (mockApiCall clock) (Some ''user@example.com'') (Some ''SecurePass123'') anonymous_world)
     = Inr john
   \<and> auth_token (snd (loginUser (mockApiCall clock) (Some ''user@example.com'') (Some ''SecurePass123'')
        anonymous_world)) = Some (''mock_jwt_token_'' @ decimal (clock 4))
   \<and> fst (isAuthenticated now (snd (loginUser (mockApiCall clock) (Some ''user@example.com'')
        (Some ''SecurePass123'') anonymous_world))) = Inr False"
proof -
  let ?run = "loginUser (mockApiCall clock) (Some ''user@example.com'') (Some ''SecurePass123'') anonymous_world"
  have r: "fst ?run = Inr john"
    and t: "auth_token (snd ?run) = Some (''mock_jwt_token_'' @ decimal (clock 4))"
    unfolding login_with_mock by simp_all
  have "fst (isAuthenticated now (snd ?run)) = Inr False"
    unfolding isAuthenticated_value t
    by (simp only: decodeExpiry_def mock_token_undecodable sum_bind_def option.case sum.case)
  with r t show ?thesis by blast
qed

lemma decimal_example: "decimal 1700000000000 = ''1700000000000''"
  by (simp add: decimal.simps)

theorem login_with_mock_not_authenticated_witness:
  "fst (loginUser (mockApiCall (\<lambda>i. 1700000000000)) (Some ''user@example.com'') (Some ''SecurePass123'')
     anonymous_world) = Inr john
   \<and> auth_token (snd (loginUser (mockApiCall (\<lambda>i. 1700000000000)) (Some ''user@example.com'')
        (Some ''SecurePass123'') anonymous_world)) = Some ''mock_jwt_token_1700000000000''
   \<and> fst (isAuthenticated 1700000001000 (snd (loginUser (mockApiCall (\<lambda>i. 1700000000000))
        (Some ''user@example.com'') (Some ''SecurePass123'') anonymous_world))) = Inr False"
  using login_with_mock_not_authenticated [of "\<lambda>i. 1700000000000" 1700000001000]
  by (simp add: decimal_example)

text \<open>
  The token is what fails here, not the login: with a gateway whose answer carries a
  token that decodes to an expiry in the future, \<open>isAuthenticated()\<close> is true right
  after the login.
\<close>

lemma loginUser_success:
  assumes "email \<noteq> []" "password \<noteq> []" "validateEmail email"
    and "post_login api email password = Inr (Success s)"
  shows "loginUser api (Some email) (Some password) w =
     (Inr (s_user s),
      w\<lparr>auth_token := Some (s_token s),
        refresh_token := (if truthy (s_refreshToken s) then s_refreshToken s else refresh_token w),
        user_data := Some (s_user s),
        trace := trace w @ [Request ''POST'' ''/auth/login'', StorageSet TOKEN_KEY]
          @ (if truthy (s_refreshToken s) then [StorageSet REFRESH_TOKEN_KEY] else [])
          @ [StorageSet USER_KEY, Dispatch (UserLoggedIn (s_user s))]\<rparr>)"
  using assms
  by (simp add: loginUser_def io_defs apiCall_def setTokens_def setUserData_def)

lemma loginUser_then_authenticated:
  assumes "email \<noteq> []" "password \<noteq> []" "validateEmail email"
    and "post_login api email password = Inr (Success s)"
    and "decodeExpiry (s_token s) = Inr n" "greater_than n (seconds now)"
  shows "fst (isAuthenticated now (snd (loginUser api (Some email) (Some password) w))) = Inr True"
  using assms(5,6) unfolding loginUser_success [OF assms(1-4)] isAuthenticated_value
  by simp

lemma login_with_jwt:
  "fst (isAuthenticated 1699999999000
     (snd (loginUser ((mockApiCall clock)\<lparr>post_login := (\<lambda>email password. Inr (Success
              \<lparr>s_token = sample_jwt, s_refreshToken = None, s_user = john\<rparr>))\<rparr>)
        (Some ''user@example.com'') (Some ''SecurePass123'') anonymous_world))) = Inr True"
proof -
  let ?s = "\<lparr>s_token = sample_jwt, s_refreshToken = None, s_user = john\<rparr>"
  let ?api = "(mockApiCall clock)\<lparr>post_login := (\<lambda>email password. Inr (Success ?s))\<rparr>"
  have p: "post_login ?api ''user@example.com'' ''SecurePass123'' = Inr (Success ?s)"
    by simp
  have e: "decodeExpiry (s_token ?s) = Inr (Finite 1700000000)"
    by (simp add: sample_jwt_expiry)
  have g: "greater_than (Finite 1700000000) (seconds 1699999999000)"
    using seconds_whole [of 1699999999] by simp
  show ?thesis
    by (rule loginUser_then_authenticated [OF _ _ example_email_valid p e g]) simp_all
qed

subsection \<open>A refresh that fails\<close>

lemma refreshToken_failure_clears:
  assumes "refreshToken api w = (Inl e, w')"
  shows "logged_out w' \<and> location_href w' = ''/login.html''"
  using assms
  by (auto simp: refreshToken_def io_defs getRefreshToken_def apiCall_def clearAuthData_def
       removePendingRegistration_def navigate_def setTokens_def logged_out_def
       split: if_splits sum.splits reply.splits prod.splits)

lemma refreshToken_rejected:
  assumes "refresh_token w = Some stored" "post_refresh_token api stored = Inr (Failure message)"
  shows "\<exists>e. fst (refreshToken api w) = Inl e"
  using assms
  by (auto simp: refreshToken_def io_defs getRefreshToken_def apiCall_def clearAuthData_def
       removePendingRegistration_def navigate_def)

lemma logged_out_not_authenticated: "logged_out w \<Longrightarrow> fst (isAuthenticated now w) = Inr False"
  by (simp add: isAuthenticated_value logged_out_def)

text \<open>
  Claim C5. When the gateway rejects the stored refresh token, \<open>refreshSession()\<close>
  throws; the world it leaves has no token, no refresh token, no user and no pending
  registration, \<open>window.location.href\<close> is the login page, and \<open>isAuthenticated()\<close> is
  false there.
\<close>

theorem refreshToken_rejected_ends_session:
  assumes "refresh_token w = Some stored" and "post_refresh_token api stored = Inr (Failure message)"
  shows "\<exists>e w'. refreshToken api w = (Inl e, w')
     \<and> auth_token w' = None \<and> refresh_token w' = None \<and> user_data w' = None
     \<and> pending_registration w' = None
     \<and> location_href w' = ''/login.html''
     \<and> fst (isAuthenticated now w') = Inr False"
proof -
  from refreshToken_rejected [OF assms] obtain e where "fst (refreshToken api w) = Inl e" ..
  then have r: "refreshToken api w = (Inl e, snd (refreshToken api w))"
    by (metis prod.collapse)
  from refreshToken_failure_clears [OF r]
  have c: "logged_out (snd (refreshToken api w))" and l: "location_href (snd (refreshToken api w)) = ''/login.html''"
    by simp_all
  from c have "fst (isAuthenticated now (snd (refreshToken api w))) = Inr False"
    by (rule logged_out_not_authenticated)
  with r c l show ?thesis unfolding logged_out_def by blast
qed

theorem refreshToken_rejected_ends_session_witness:
  "refresh_token (profile_world\<lparr>refresh_token := Some ''r''\<rparr>) = Some ''r''
   \<and> post_refresh_token ((mockApiCall (\<lambda>i. 0))\<lparr>post_refresh_token := (\<lambda>t. Inr (Failure None))\<rparr>) ''r''
        = Inr (Failure None)
   \<and> (\<exists>e w'. refreshToken ((mockApiCall (\<lambda>i. 0))\<lparr>post_refresh_token := (\<lambda>t. Inr (Failure None))\<rparr>)
          (profile_world\<lparr>refresh_token := Some ''r''\<rparr>) = (Inl e, w')
       \<and> auth_token w' = None \<and> refresh_token w' = None \<and> user_data w' = None
       \<and> pending_registration w' = None
       \<and> location_href w' = ''/login.html''
       \<and> fst (isAuthenticated 1700000000000 w') = Inr False)"
proof -
  let ?w = "profile_world\<lparr>refresh_token := Some ''r''\<rparr>"
  let ?api = "(mockApiCall (\<lambda>i. 0))\<lparr>post_refresh_token := (\<lambda>t. Inr (Failure None))\<rparr>"
  have a: "refresh_token ?w = Some ''r''" by simp
  have b: "post_refresh_token ?api ''r'' = Inr (Failure None)" by simp
  from refreshToken_rejected_ends_session [OF a b, of 1700000000000] a b
  show ?thesis by blast
qed

subsection \<open>OTP verification\<close>

lemma verifyOtp_wrong_length:
  assumes "truthy userId" and "truthy otp" and "length (the otp) \<noteq> 6"
  shows "verifyOtp api userId otp w = (Inl (Error ''OTP must be 6 digits''),
     w\<lparr>trace := trace w @ [ConsoleError ''OTP verification error:'']\<rparr>)"
  using assms by (simp add: verifyOtp_def io_defs)

lemma verifyOtp_with_mock:
  assumes "length otp = 6" and "userId \<noteq> []"
  shows "verifyOtp (mockApiCall clock) (Some userId) (Some otp) pending_world
     = (Inr (verified_user clock), verified_world clock)"
  using assms
  by (auto simp: verifyOtp_def io_defs apiCall_def mockApiCall_def setTokens_def setUserData_def
       removePendingRegistration_def pending_world_def verified_world_def verified_user_def
       anonymous_world_def john_def)

text \<open>
  Claim C7 fails on the code. Only the length of the code is checked, so the six
  letters \<open>abcdef\<close> reach the gateway; and a \<open>verifyOtp\<close> that succeeds stores the
  tokens and the user and clears the pending registration, but dispatches no event.
\<close>

theorem verifyOtp_accepts_non_digits_and_emits_nothing:
  "verifyOtp (mockApiCall clock) (Some ''user_1'') (Some ''abcdef'') pending_world
     = (Inr (verified_user clock), verified_world clock)
   \<and> verifyOtp (mockApiCall clock) (Some ''user_1'') (Some ''123456'') pending_world
     = (Inr (verified_user clock), verified_world clock)
   \<and> trace (verified_world clock) = [Request ''POST'' ''/auth/verify-otp'', StorageRemove PENDING_KEY,
        StorageSet TOKEN_KEY, StorageSet REFRESH_TOKEN_KEY, StorageSet USER_KEY]"
  by (simp add: verifyOtp_with_mock) (simp add: verified_world_def)

theorem verifyOtp_accepts_non_digits_and_emits_nothing_witness:
  "verifyOtp (mockApiCall (\<lambda>i. 1700000000000)) (Some ''user_1'') (Some ''abcdef'') pending_world
     = (Inr (verified_user (\<lambda>i. 1700000000000)), verified_world (\<lambda>i. 1700000000000))
   \<and> pending_registration pending_world = Some \<lparr>p_email = ''user@example.com'', p_userId = ''user_1''\<rparr>
   \<and> pending_registration (verified_world (\<lambda>i. 1700000000000)) = None
   \<and> auth_token (verified_world (\<lambda>i. 1700000000000)) = Some ''mock_jwt_token_1700000000000''
   \<and> trace (verified_world (\<lambda>i. 1700000000000)) = [Request ''POST'' ''/auth/verify-otp'',
        StorageRemove PENDING_KEY, StorageSet TOKEN_KEY, StorageSet REFRESH_TOKEN_KEY, StorageSet USER_KEY]"
  using verifyOtp_accepts_non_digits_and_emits_nothing [of "\<lambda>i. 1700000000000"]
  by (simp add: verified_world_def pending_world_def anonymous_world_def decimal_example)

text \<open>No run of \<open>verifyOtp\<close> dispatches an event, whatever the gateway and the arguments.\<close>

lemma verifyOtp_dispatches_nothing:
  "\<exists>es. trace (snd (verifyOtp api userId otp w)) = trace w @ es \<and> (\<forall>e. Dispatch e \<notin> set es)"
  by (auto simp: verifyOtp_def io_defs apiCall_def setTokens_def setUserData_def removePendingRegistration_def
       split: sum.splits reply.splits prod.splits if_splits)

end
